theory Spec2Isabelle
  imports Main "HOL-Library.Sublist" "HOL-Library.Multiset"
begin

section \<open>Python values used by the feeder and the processor\<close>

text \<open>
  Exceptions are values.  Every \<^verbatim>\<open>raise\<close>, failed \<^verbatim>\<open>assert\<close>, failed unpacking
  and failed index of the source is a branch of the model that returns one of these.
\<close>

datatype error =
    RuntimeError
  | TypeError
  | ValueError
  | IndexError
  | AttributeError
  | AssertionError
  | ZeroDivisionError
  | FileNotFoundError
  | ReadError
  | ClientError

text \<open>\<^verbatim>\<open>s.endswith(suf)\<close>\<close>

definition endswith :: "string \<Rightarrow> string \<Rightarrow> bool" where
  "endswith s suf = (length suf \<le> length s \<and> drop (length s - length suf) s = suf)"

text \<open>\<^verbatim>\<open>s.split(c)\<close> for a one-character separator: never the empty list.\<close>

fun split_on :: "char \<Rightarrow> string \<Rightarrow> string list" where
  "split_on c [] = [[]]"
| "split_on c (x # xs) =
     (if x = c then [] # split_on c xs
      else (case split_on c xs of
              [] \<Rightarrow> [[x]]
            | w # ws \<Rightarrow> (x # w) # ws))"

text \<open>\<^verbatim>\<open>s.split(c, n)\<close>: at most \<open>n\<close> splits, the rest of the string stays whole.\<close>

fun splitn :: "nat \<Rightarrow> char \<Rightarrow> string \<Rightarrow> string list" where
  "splitn 0 c s = [s]"
| "splitn (Suc n) c [] = [[]]"
| "splitn (Suc n) c (x # xs) =
     (if x = c then [] # splitn n c xs
      else (case splitn (Suc n) c xs of
              [] \<Rightarrow> [[x]]
            | w # ws \<Rightarrow> (x # w) # ws))"

text \<open>\<^verbatim>\<open>s.rsplit(c, 1)\<close>: one element when \<open>c\<close> does not occur, else the text before
  and the text after the last \<open>c\<close>.\<close>

definition rsplit1 :: "char \<Rightarrow> string \<Rightarrow> string list" where
  "rsplit1 c s =
     (if c \<in> set s
      then [rev (tl (dropWhile (\<lambda>x. x \<noteq> c) (rev s))), rev (takeWhile (\<lambda>x. x \<noteq> c) (rev s))]
      else [s])"

text \<open>\<^verbatim>\<open>xs[-2]\<close>, which raises IndexError on a list of fewer than two elements.\<close>

definition idx_last2 :: "'a list \<Rightarrow> error + 'a" where
  "idx_last2 xs = (if length xs < 2 then Inl IndexError else Inr (xs ! (length xs - 2)))"

text \<open>\<^verbatim>\<open>xs[i]\<close> for a non-negative index.\<close>

definition idx :: "'a list \<Rightarrow> nat \<Rightarrow> error + 'a" where
  "idx xs i = (if i < length xs then Inr (xs ! i) else Inl IndexError)"

text \<open>
  A dict comprehension \<^verbatim>\<open>{k: v for ...}\<close> over a list of pairs in iteration order: a later
  pair overwrites an earlier one with the same key.
\<close>

definition dict_of :: "('k \<times> 'v) list \<Rightarrow> ('k \<rightharpoonup> 'v)" where
  "dict_of kvs = fold (\<lambda>(k, v) m. m(k \<mapsto> v)) kvs Map.empty"

section \<open>Calendar dates\<close>

text \<open>
  A \<^verbatim>\<open>datetime.date\<close> is modelled by its proleptic Gregorian ordinal
  (\<^verbatim>\<open>date.toordinal()\<close>, day 1 is 0001-01-01): comparison of dates is comparison of
  ordinals and \<^verbatim>\<open>day + timedelta(days=1)\<close> is \<open>day + 1\<close>.  The two conversions below are
  the usual civil-calendar arithmetic; they are only used to print and to read dates.
\<close>

type_synonym date = int

definition ymd_of :: "date \<Rightarrow> int \<times> int \<times> int" where
  "ymd_of d =
     (let z = d + 305;
          era = z div 146097;
          doe = z mod 146097;
          yoe = (doe - doe div 1460 + doe div 36524 - doe div 146096) div 365;
          doy = doe - (365 * yoe + yoe div 4 - yoe div 100);
          mp = (5 * doy + 2) div 153;
          dd = doy - (153 * mp + 2) div 5 + 1;
          m = (if mp < 10 then mp + 3 else mp - 9)
      in (yoe + era * 400 + (if m \<le> 2 then 1 else 0), m, dd))"

definition ordinal_of :: "int \<Rightarrow> int \<Rightarrow> int \<Rightarrow> date" where
  "ordinal_of y m d =
     (let y' = (if m \<le> 2 then y - 1 else y);
          era = y' div 400;
          yoe = y' mod 400;
          doy = (153 * (if m > 2 then m - 3 else m + 9) + 2) div 5 + d - 1;
          doe = yoe * 365 + yoe div 4 - yoe div 100 + doy
      in era * 146097 + doe - 305)"

definition digit_char :: "int \<Rightarrow> char" where
  "digit_char k = ''0123456789'' ! nat k"

definition zero_pad :: "nat \<Rightarrow> int \<Rightarrow> string" where
  "zero_pad w n = map (\<lambda>i. digit_char ((n div 10 ^ i) mod 10)) (rev [0..<w])"

text \<open>
  \<^verbatim>\<open>f"{d:%Y%m%d}"\<close> and \<^verbatim>\<open>f"{d:%Y-%m-%d}"\<close>.  The month and the day are
  padded to two digits; the year is printed by the C library without padding (the year
  999 as \<open>999\<close>), and a \<^verbatim>\<open>date\<close> has a year from 1 to 9999.
\<close>

definition year_str :: "int \<Rightarrow> string" where
  "year_str y =
     (if y < 10 then zero_pad 1 y
      else if y < 100 then zero_pad 2 y
      else if y < 1000 then zero_pad 3 y
      else zero_pad 4 y)"

definition strftime_Ymd :: "date \<Rightarrow> string" where
  "strftime_Ymd d =
     (case ymd_of d of (y, m, dd) \<Rightarrow> year_str y @ zero_pad 2 m @ zero_pad 2 dd)"

definition strftime_iso :: "date \<Rightarrow> string" where
  "strftime_iso d =
     (case ymd_of d of (y, m, dd) \<Rightarrow> year_str y @ ''-'' @ zero_pad 2 m @ ''-'' @ zero_pad 2 dd)"

text \<open>\<^verbatim>\<open>date(2020, 10, 20)\<close> and \<^verbatim>\<open>date(2020, 10, 21)\<close>.\<close>

definition date_2020_10_20 :: date where
  "date_2020_10_20 = 737718"

definition date_2020_10_21 :: date where
  "date_2020_10_21 = 737719"

subsection \<open>\<^verbatim>\<open>date_interval\<close> (s3feeder.py, lines 415 to 424)\<close>

text \<open>
  The \<^verbatim>\<open>while day < stop_day: yield day; day += timedelta(days=1)\<close> loop.
\<close>

function day_loop :: "date \<Rightarrow> date \<Rightarrow> date list" where
  "day_loop day stop_day = (if day < stop_day then day # day_loop (day + 1) stop_day else [])"
  by pat_completeness auto
termination
  by (relation "measure (\<lambda>(day, stop_day). nat (stop_day - day))") auto

declare day_loop.simps [simp del]

text \<open>
  \<^verbatim>\<open>date_interval\<close> is a generator: its body runs when the caller asks for the first
  element.  \<^verbatim>\<open>raise StopIteration\<close> inside a generator body is turned by the interpreter
  into \<^verbatim>\<open>RuntimeError("generator raised StopIteration")\<close> (PEP 479; the code needs
  Python 3.9 for \<^verbatim>\<open>functools.cache\<close>).  A \<^verbatim>\<open>date\<close> object is always truthy, so the
  only falsy \<^verbatim>\<open>start_day\<close> is \<^verbatim>\<open>None\<close>; \<^verbatim>\<open>None < today\<close> for the end day is a TypeError.
  The first argument is \<^verbatim>\<open>date.today()\<close>.  The result is the error the iteration raises
  or the list of all days it yields.
\<close>

definition date_interval :: "date \<Rightarrow> date option \<Rightarrow> date option \<Rightarrow> error + date list" where
  "date_interval today start_day end_day =
     (case start_day of
        None \<Rightarrow> Inl RuntimeError
      | Some s \<Rightarrow>
          if s \<ge> today then Inl RuntimeError
          else (case end_day of
                  None \<Rightarrow> Inl TypeError
                | Some e \<Rightarrow> Inr (day_loop s (if e < today then e else today))))"

section \<open>Measurements and observations (processing.py)\<close>

text \<open>
  The sub-event lists of a measurement's \<^verbatim>\<open>test_keys\<close>, with the attributes the processor
  and the extractors read.  Every list is optional (\<^verbatim>\<open>Optional[List[...]]\<close> in
  models/nettests), a missing list counts as empty.
\<close>

record DNSQuery =
  hostname :: string
  q_query_type :: string
  q_answers :: "string list"
  q_failure :: "string option"

record TCPConnect =
  c_ip :: string
  c_port :: int
  c_success :: bool

record TLSHandshake =
  h_ip :: string
  h_port :: int
  h_is_certificate_valid :: "bool option"

record HTTPTransaction =
  t_url :: string

record test_keys =
  queries :: "DNSQuery list option"
  tcp_connect :: "TCPConnect list option"
  tls_handshakes :: "TLSHandshake list option"
  network_events :: "string list option"
  requests :: "HTTPTransaction list option"

record measurement =
  test_name :: string
  test_keys :: test_keys

record dns_observation =
  domain_name :: string
  query_type :: string
  answer :: "string option"
  failure :: "string option"
  is_tls_consistent :: "bool option"

record tcp_observation =
  tcp_ip :: string
  tcp_port :: int
  tcp_domain_name :: "string option"
  tcp_success :: bool

record tls_observation =
  tls_ip :: string
  tls_port :: int
  domain :: "string option"
  is_certificate_valid :: "bool option"

record http_observation =
  request_url :: string

text \<open>
  A row handed to \<^verbatim>\<open>db.write_row\<close>.  \<^verbatim>\<open>make_observation_row\<close> copies every annotated
  attribute of the observation into the row, so the model writes the observation itself,
  tagged with its category; the database is the list of rows written so far.
\<close>

datatype observation =
    HTTP http_observation
  | TCP tcp_observation
  | TLS tls_observation
  | DNS dns_observation

type_synonym db = "observation list"

definition write_observations_to_db :: "db \<Rightarrow> observation list \<Rightarrow> db" where
  "write_observations_to_db d observations = d @ observations"

definition or_empty :: "'a list option \<Rightarrow> 'a list" where
  "or_empty xs = (case xs of None \<Rightarrow> [] | Some ys \<Rightarrow> ys)"

text \<open>
  Modelled from the spec: \<^verbatim>\<open>make_dns_observations\<close> of oonidata.observations, which is
  not among the source files.  Spec 4.3: one observation per resolved answer (or one
  failure observation if the query failed), carrying \<^verbatim>\<open>domain_name\<close>, \<^verbatim>\<open>query_type\<close>,
  \<^verbatim>\<open>answer\<close> (IP or CNAME) and \<^verbatim>\<open>failure\<close>.  The result is a list (the processor iterates
  it twice).
\<close>

definition dns_observations_of_query :: "DNSQuery \<Rightarrow> dns_observation list" where
  "dns_observations_of_query q =
     (case q_failure q of
        Some f \<Rightarrow>
          [\<lparr>domain_name = hostname q, query_type = q_query_type q, answer = None,
            failure = Some f, is_tls_consistent = None\<rparr>]
      | None \<Rightarrow>
          map (\<lambda>a. \<lparr>domain_name = hostname q, query_type = q_query_type q, answer = Some a,
                     failure = None, is_tls_consistent = None\<rparr>)
              (q_answers q))"

definition make_dns_observations :: "DNSQuery list option \<Rightarrow> dns_observation list" where
  "make_dns_observations qs = concat (map dns_observations_of_query (or_empty qs))"

text \<open>
  Modelled from the spec: \<^verbatim>\<open>make_tcp_observations\<close> (not among the source files).  Spec 4.3:
  one observation per attempted (ip, port); the domain comes from
  \<^verbatim>\<open>ip_to_domain[observation.ip]\<close>, absence yields NULL.
\<close>

definition make_tcp_observations ::
  "TCPConnect list option \<Rightarrow> (string option \<rightharpoonup> string) \<Rightarrow> tcp_observation list" where
  "make_tcp_observations connects ip_to_domain =
     map (\<lambda>c. \<lparr>tcp_ip = c_ip c, tcp_port = c_port c,
                tcp_domain_name = ip_to_domain (Some (c_ip c)), tcp_success = c_success c\<rparr>)
         (or_empty connects)"

text \<open>
  Modelled from the spec: \<^verbatim>\<open>make_tls_observations\<close> (not among the source files).  Spec 4.3:
  one observation per handshake, the domain again from \<^verbatim>\<open>ip_to_domain\<close>.  The byte
  counters taken from the network events are not part of the model.
\<close>

definition make_tls_observations ::
  "TLSHandshake list option \<Rightarrow> string list option \<Rightarrow> (string option \<rightharpoonup> string)
     \<Rightarrow> tls_observation list" where
  "make_tls_observations handshakes events ip_to_domain =
     map (\<lambda>h. \<lparr>tls_ip = h_ip h, tls_port = h_port h,
                domain = ip_to_domain (Some (h_ip h)),
                is_certificate_valid = h_is_certificate_valid h\<rparr>)
         (or_empty handshakes)"

text \<open>
  Modelled from the spec: \<^verbatim>\<open>make_http_observations\<close> (not among the source files).  Spec 4.3:
  one observation per request/response pair.
\<close>

definition make_http_observations :: "HTTPTransaction list option \<Rightarrow> http_observation list" where
  "make_http_observations reqs = map (\<lambda>t. \<lparr>request_url = t_url t\<rparr>) (or_empty reqs)"

subsection \<open>\<^verbatim>\<open>web_connectivity_processor\<close> (processing.py, lines 107 to 157)\<close>

text \<open>Line 124: \<^verbatim>\<open>{obs.answer: obs.domain_name for obs in dns_observations}\<close>.\<close>

definition ip_to_domain_of :: "dns_observation list \<Rightarrow> (string option \<rightharpoonup> string)" where
  "ip_to_domain_of dns_observations =
     dict_of (map (\<lambda>obs. (answer obs, domain_name obs)) dns_observations)"

text \<open>Lines 146 to 148: \<^verbatim>\<open>{obs.domain: obs.is_certificate_valid for obs in tls_observations}\<close>.\<close>

definition tls_valid_domain_to_ip_of ::
  "tls_observation list \<Rightarrow> (string option \<rightharpoonup> bool option)" where
  "tls_valid_domain_to_ip_of tls_observations =
     dict_of (map (\<lambda>obs. (domain obs, is_certificate_valid obs)) tls_observations)"

text \<open>Lines 149 to 152: the loop that sets \<^verbatim>\<open>is_tls_consistent\<close> from
  \<^verbatim>\<open>tls_valid_domain_to_ip.get(dns_obs.answer, None)\<close>.\<close>

definition enrich_dns ::
  "(string option \<rightharpoonup> bool option) \<Rightarrow> dns_observation list \<Rightarrow> dns_observation list" where
  "enrich_dns tls_valid_domain_to_ip dns_observations =
     map (\<lambda>dns_obs. dns_obs\<lparr>is_tls_consistent :=
            (case tls_valid_domain_to_ip (answer dns_obs) of None \<Rightarrow> None | Some v \<Rightarrow> v)\<rparr>)
         dns_observations"

definition web_connectivity_processor :: "measurement \<Rightarrow> db \<Rightarrow> db" where
  "web_connectivity_processor msmt db0 =
     (let http_observations = make_http_observations (requests (test_keys msmt));
          db1 = write_observations_to_db db0 (map HTTP http_observations);
          dns_observations = make_dns_observations (queries (test_keys msmt));
          ip_to_domain = ip_to_domain_of dns_observations;
          tcp_observations = make_tcp_observations (tcp_connect (test_keys msmt)) ip_to_domain;
          db2 = write_observations_to_db db1 (map TCP tcp_observations);
          tls_observations =
            make_tls_observations (tls_handshakes (test_keys msmt))
              (network_events (test_keys msmt)) ip_to_domain;
          db3 = write_observations_to_db db2 (map TLS tls_observations);
          tls_valid_domain_to_ip = tls_valid_domain_to_ip_of tls_observations;
          enriched_dns_observations = enrich_dns tls_valid_domain_to_ip dns_observations
      in write_observations_to_db db3 (map DNS enriched_dns_observations))"

text \<open>The category order the specification gives (DNS, TCP, TLS, HTTP).\<close>

fun spec_rank :: "observation \<Rightarrow> nat" where
  "spec_rank (DNS _) = 0"
| "spec_rank (TCP _) = 1"
| "spec_rank (TLS _) = 2"
| "spec_rank (HTTP _) = 3"

text \<open>The order of the four \<^verbatim>\<open>write_observations_to_db\<close> calls in the processor.\<close>

fun write_rank :: "observation \<Rightarrow> nat" where
  "write_rank (HTTP _) = 0"
| "write_rank (TCP _) = 1"
| "write_rank (TLS _) = 2"
| "write_rank (DNS _) = 3"

text \<open>A measurement with one resolved query, one TLS handshake to the resolved address
  (certificate valid) and one HTTP request.\<close>

definition example_msmt :: measurement where
  "example_msmt =
     \<lparr>test_name = ''web_connectivity'',
      test_keys =
        \<lparr>queries = Some [\<lparr>hostname = ''example.org'', q_query_type = ''A'',
                           q_answers = [''93.184.216.34''], q_failure = None\<rparr>],
         tcp_connect = Some [\<lparr>c_ip = ''93.184.216.34'', c_port = 443, c_success = True\<rparr>],
         tls_handshakes = Some [\<lparr>h_ip = ''93.184.216.34'', h_port = 443,
                                  h_is_certificate_valid = Some True\<rparr>],
         network_events = None,
         requests = Some [\<lparr>t_url = ''https://example.org/''\<rparr>]\<rparr>\<rparr>"

text \<open>A measurement in which two names resolve to the same address.\<close>

definition shared_ip_msmt :: measurement where
  "shared_ip_msmt =
     \<lparr>test_name = ''web_connectivity'',
      test_keys =
        \<lparr>queries = Some [\<lparr>hostname = ''a.example'', q_query_type = ''A'',
                           q_answers = [''192.0.2.1''], q_failure = None\<rparr>,
                          \<lparr>hostname = ''b.example'', q_query_type = ''A'',
                           q_answers = [''192.0.2.1''], q_failure = None\<rparr>],
         tcp_connect = Some [\<lparr>c_ip = ''192.0.2.1'', c_port = 443, c_success = True\<rparr>],
         tls_handshakes = Some [\<lparr>h_ip = ''192.0.2.1'', h_port = 443,
                                  h_is_certificate_valid = Some False\<rparr>],
         network_events = None,
         requests = None\<rparr>\<rparr>"

section \<open>The file catalog (s3feeder.py)\<close>

subsection \<open>Reading a day from a file name\<close>

text \<open>
  \<^verbatim>\<open>datetime.strptime(s, "%Y%m%d")\<close>.  The library matches the regular expression
  \<^verbatim>\<open>(\d\d\d\d)(1[0-2]|0[1-9]|[1-9])(3[0-1]|[1-2]\d|0[1-9]|[1-9]| [1-9])\<close> at the
  start of the string, taking the first alternatives that match; text left over, a year 0
  and a day the month does not have are a ValueError (here \<open>None\<close>).
\<close>

definition digit_val :: "char \<Rightarrow> int" where
  "digit_val c = int (length (takeWhile (\<lambda>d. d \<noteq> c) ''0123456789''))"

definition month_alts :: "string \<Rightarrow> (int \<times> string) list" where
  "month_alts s =
     (case s of
        a # b # r \<Rightarrow>
          (if a = CHR ''1'' \<and> b \<in> set ''012'' then [(10 + digit_val b, r)] else [])
          @ (if a = CHR ''0'' \<and> b \<in> set ''123456789'' then [(digit_val b, r)] else [])
      | _ \<Rightarrow> [])
     @ (case s of
          a # r \<Rightarrow> (if a \<in> set ''123456789'' then [(digit_val a, r)] else [])
        | [] \<Rightarrow> [])"

definition day_alts :: "string \<Rightarrow> (int \<times> string) list" where
  "day_alts s =
     (case s of
        a # b # r \<Rightarrow>
          (if a = CHR ''3'' \<and> b \<in> set ''01'' then [(30 + digit_val b, r)] else [])
          @ (if a \<in> set ''12'' \<and> b \<in> set ''0123456789''
             then [(10 * digit_val a + digit_val b, r)] else [])
          @ (if a = CHR ''0'' \<and> b \<in> set ''123456789'' then [(digit_val b, r)] else [])
      | _ \<Rightarrow> [])
     @ (case s of
          a # r \<Rightarrow> (if a \<in> set ''123456789'' then [(digit_val a, r)] else [])
        | [] \<Rightarrow> [])
     @ (case s of
          a # b # r \<Rightarrow>
            (if a = CHR '' '' \<and> b \<in> set ''123456789'' then [(digit_val b, r)] else [])
        | _ \<Rightarrow> [])"

definition days_in_month :: "int \<Rightarrow> int \<Rightarrow> int" where
  "days_in_month y m =
     (if m = 2 then (if y mod 4 = 0 \<and> (y mod 100 \<noteq> 0 \<or> y mod 400 = 0) then 29 else 28)
      else if m \<in> {4, 6, 9, 11} then 30 else 31)"

definition strptime_Ymd :: "string \<Rightarrow> date option" where
  "strptime_Ymd s =
     (case s of
        y1 # y2 # y3 # y4 # rest \<Rightarrow>
          if set [y1, y2, y3, y4] \<subseteq> set ''0123456789'' then
            (case concat (map (\<lambda>(m, r). map (\<lambda>(d, r'). (m, d, r')) (day_alts r))
                              (month_alts rest)) of
               [] \<Rightarrow> None
             | (m, d, r') # _ \<Rightarrow>
                 (let y = 1000 * digit_val y1 + 100 * digit_val y2 + 10 * digit_val y3
                          + digit_val y4
                  in if r' \<noteq> [] \<or> y < 1 \<or> days_in_month y m < d then None
                     else Some (ordinal_of y m d)))
          else None
      | _ \<Rightarrow> None)"

subsection \<open>The object storage\<close>

text \<open>
  An object of a bucket, as a page of \<^verbatim>\<open>list_objects_v2\<close> gives it.
\<close>

record s3obj =
  Key :: string
  Size :: int

definition startswith :: "string \<Rightarrow> string \<Rightarrow> bool" where
  "startswith s p = (take (length p) s = p)"

text \<open>
  Modelled from the spec: the object storage is an external collaborator (spec 6:
  \<^verbatim>\<open>list(bucket, prefix, delimiter)\<close> with pagination and common-prefix grouping).  A
  bucket is the list of its objects; \<^verbatim>\<open>paginate(Bucket, Prefix)\<close> gives, over all pages,
  the objects whose key starts with the prefix, and with \<^verbatim>\<open>Delimiter="/"\<close> the
  \<^verbatim>\<open>CommonPrefixes\<close>: the prefix extended up to and including the next \<open>/\<close>.
\<close>

definition list_objects :: "s3obj list \<Rightarrow> string \<Rightarrow> s3obj list" where
  "list_objects bucket pfx = filter (\<lambda>f. startswith (Key f) pfx) bucket"

definition common_prefixes :: "s3obj list \<Rightarrow> string \<Rightarrow> string list" where
  "common_prefixes bucket pfx =
     remdups (concat (map (\<lambda>f. let rest = drop (length pfx) (Key f)
                               in if CHR ''/'' \<in> set rest
                                  then [pfx @ takeWhile (\<lambda>c. c \<noteq> CHR ''/'') rest @ ''/'']
                                  else [])
                          (list_objects bucket pfx)))"

definition MC_BUCKET_NAME :: string where
  "MC_BUCKET_NAME = ''ooni-data-eu-fra''"

subsection \<open>\<^verbatim>\<open>FileEntry\<close> (s3feeder.py, lines 214 to 248)\<close>

record FileEntry =
  day :: date
  country_code :: string
  fe_test_name :: string
  filename :: string
  fe_size :: int
  ext :: string
  s3path :: string
  bucket_name :: string

text \<open>
  \<^verbatim>\<open>matches_filter\<close>.  The two sets are lists in iteration order; an empty string and an
  empty set are falsy.
\<close>

definition matches_filter :: "FileEntry \<Rightarrow> string list \<Rightarrow> string list \<Rightarrow> bool" where
  "matches_filter fe ccs testnames =
     (if country_code fe \<noteq> [] \<and> ccs \<noteq> [] \<and> country_code fe \<notin> set ccs then False
      else if fe_test_name fe \<noteq> [] \<and> testnames \<noteq> [] \<and> fe_test_name fe \<notin> set testnames
      then False
      else True)"

subsection \<open>\<^verbatim>\<open>iter_file_entries\<close> and \<^verbatim>\<open>list_file_entries\<close> (lines 251 to 271, 333 to 334)\<close>

text \<open>
  The body of the loop of \<^verbatim>\<open>iter_file_entries\<close> for one listed object.
  \<^verbatim>\<open>parts[2]\<close> raises IndexError when the file name has fewer than three fields,
  unpacking \<^verbatim>\<open>parts[2].split(".", 3)\<close> into four names raises ValueError unless there
  are four pieces, and \<^verbatim>\<open>strptime\<close> raises ValueError.
\<close>

definition parse_file_entry :: "s3obj \<Rightarrow> error + FileEntry" where
  "parse_file_entry f =
     (let fname = last (split_on CHR ''/'' (Key f));
          parts = split_on CHR ''_'' fname
      in if length parts < 3 then Inl IndexError
         else (case splitn 3 CHR ''.'' (parts ! 2) of
                 [tn, u, v, e] \<Rightarrow>
                   (case strptime_Ymd (take 8 (parts ! 0)) of
                      None \<Rightarrow> Inl ValueError
                    | Some d \<Rightarrow>
                        Inr \<lparr>day = d, country_code = parts ! 1, fe_test_name = tn,
                             filename = fname, fe_size = Size f, ext = e, s3path = Key f,
                             bucket_name = MC_BUCKET_NAME\<rparr>)
               | _ \<Rightarrow> Inl ValueError))"

text \<open>A list comprehension over a generator that may raise: all elements, or the first
  error.\<close>

fun collect :: "(error + 'a) list \<Rightarrow> error + 'a list" where
  "collect [] = Inr []"
| "collect (Inl e # rs) = Inl e"
| "collect (Inr x # rs) = (case collect rs of Inl e \<Rightarrow> Inl e | Inr xs \<Rightarrow> Inr (x # xs))"

definition list_file_entries :: "s3obj list \<Rightarrow> string \<Rightarrow> error + FileEntry list" where
  "list_file_entries mc pfx = collect (map parse_file_entry (list_objects mc pfx))"

subsection \<open>Prefixes (lines 274 to 330)\<close>

text \<open>\<^verbatim>\<open>prefix.split("/")[-2]\<close> for a common prefix, which ends in \<open>/\<close> and so has at
  least two pieces.\<close>

definition penultimate :: "string \<Rightarrow> string" where
  "penultimate p = (let parts = split_on CHR ''/'' p in parts ! (length parts - 2))"

text \<open>\<^verbatim>\<open>list_all_testnames\<close>; the set it returns, in some iteration order.\<close>

definition list_all_testnames :: "s3obj list \<Rightarrow> string list" where
  "list_all_testnames mc = remdups (map penultimate (common_prefixes mc ''jsonl/''))"

definition get_search_prefixes :: "s3obj list \<Rightarrow> string list \<Rightarrow> string list \<Rightarrow> string list" where
  "get_search_prefixes mc testnames ccs =
     concat (map (\<lambda>tn. filter (\<lambda>p. \<not> (ccs \<noteq> [] \<and> penultimate p \<notin> set ccs))
                          (common_prefixes mc (''jsonl/'' @ tn @ ''/'')))
                 testnames)"

text \<open>
  \<^verbatim>\<open>get_jsonl_prefixes\<close>.  The two \<^verbatim>\<open>date_interval\<close> generators are consumed in full (by
  the list comprehension and by \<^verbatim>\<open>list(itertools.product(...))\<close>), so their RuntimeError
  is raised here.  \<^verbatim>\<open>itertools.product(prefixes, days)\<close> is \<open>List.product\<close>; \<open>pfxs\<close> stands for the
  variable \<^verbatim>\<open>prefixes\<close>.
\<close>

definition get_jsonl_prefixes ::
  "date \<Rightarrow> s3obj list \<Rightarrow> string list \<Rightarrow> string list \<Rightarrow> date \<Rightarrow> date \<Rightarrow> error + string list" where
  "get_jsonl_prefixes today mc ccs testnames start_day end_day =
     (case date_interval today (Some (max date_2020_10_20 start_day)) (Some end_day) of
        Inl e \<Rightarrow> Inl e
      | Inr ds \<Rightarrow>
          (let legacy_prefixes = map (\<lambda>d. ''raw/'' @ strftime_Ymd d) ds;
               testnames' = (if testnames = [] then list_all_testnames mc else testnames)
           in if start_day < date_2020_10_21 then
                (let pfxs = get_search_prefixes mc testnames' ccs
                 in case date_interval today (Some start_day) (Some end_day) of
                      Inl e \<Rightarrow> Inl e
                    | Inr days \<Rightarrow>
                        (let combos = List.product pfxs days
                         in Inr ((if length combos > 1000000
                                  then map (\<lambda>(p, d). p @ strftime_Ymd d) combos
                                  else pfxs)
                                 @ legacy_prefixes)))
              else Inr ([] @ legacy_prefixes)))"

subsection \<open>\<^verbatim>\<open>jsonl_in_range\<close> (lines 337 to 356)\<close>

text \<open>The four tests of the inner loop: an entry is yielded when none of the three
  \<^verbatim>\<open>continue\<close> statements is taken and its size is positive.\<close>

definition yielded_entry :: "string list \<Rightarrow> string list \<Rightarrow> date \<Rightarrow> date \<Rightarrow> FileEntry \<Rightarrow> bool" where
  "yielded_entry ccs testnames start_day end_day fe =
     (if ext fe \<noteq> ''jsonl.gz'' then False
      else if \<not> matches_filter fe ccs testnames then False
      else if day fe < start_day \<or> day fe \<ge> end_day then False
      else fe_size fe > 0)"

text \<open>
  The outer loop over the listings the pool hands back.  A listing that failed re-raises
  its exception when the loop reaches it; the generator has then yielded the entries of
  the listings before it.  The result is the list of entries yielded and the exception
  that ended the iteration, if any.
\<close>

fun yield_entries ::
  "(FileEntry \<Rightarrow> bool) \<Rightarrow> (error + FileEntry list) list \<Rightarrow> FileEntry list \<times> error option" where
  "yield_entries keep [] = ([], None)"
| "yield_entries keep (Inl e # rest) = ([], Some e)"
| "yield_entries keep (Inr fe_list # rest) =
     (case yield_entries keep rest of (ys, r) \<Rightarrow> (filter keep fe_list @ ys, r))"

text \<open>
  \<^verbatim>\<open>pool.imap_unordered\<close> returns the listings in the order the workers finish, which
  the program does not control: \<open>sched\<close> is that order, a rearrangement of the prefixes.
\<close>

definition jsonl_in_range ::
  "(string list \<Rightarrow> string list) \<Rightarrow> date \<Rightarrow> s3obj list \<Rightarrow> string list \<Rightarrow> string list
     \<Rightarrow> date \<Rightarrow> date \<Rightarrow> FileEntry list \<times> error option" where
  "jsonl_in_range sched today mc ccs testnames start_day end_day =
     (case get_jsonl_prefixes today mc ccs testnames start_day end_day of
        Inl e \<Rightarrow> ([], Some e)
      | Inr pfxs \<Rightarrow>
          yield_entries (yielded_entry ccs testnames start_day end_day)
            (map (list_file_entries mc) (sched pfxs)))"

text \<open>A small bucket: one converted report of 2020-10-19 under \<open>jsonl/\<close>, and a JSONL
  file and a minican of 2020-10-25 under \<open>raw/\<close>; and the entries the last two are
  listed as.\<close>

definition example_old_obj :: s3obj where
  "example_old_obj =
     \<lparr>Key = ''jsonl/webconnectivity/IT/20201019/00/20201019_IT_webconnectivity.n0.0.jsonl.gz'',
      Size = 100\<rparr>"

definition example_jsonl_obj :: s3obj where
  "example_jsonl_obj =
     \<lparr>Key = ''raw/20201025/00/IT/webconnectivity/2020102500_IT_webconnectivity.n0.0.jsonl.gz'',
      Size = 200\<rparr>"

definition example_minican_obj :: s3obj where
  "example_minican_obj =
     \<lparr>Key = ''raw/20201025/00/IT/webconnectivity/2020102500_IT_webconnectivity.n0.0.tar.gz'',
      Size = 300\<rparr>"

definition example_bucket :: "s3obj list" where
  "example_bucket = [example_old_obj, example_jsonl_obj, example_minican_obj]"

definition example_jsonl_entry :: FileEntry where
  "example_jsonl_entry =
     \<lparr>day = 737723, country_code = ''IT'', fe_test_name = ''webconnectivity'',
      filename = ''2020102500_IT_webconnectivity.n0.0.jsonl.gz'', fe_size = 200,
      ext = ''jsonl.gz'',
      s3path = ''raw/20201025/00/IT/webconnectivity/2020102500_IT_webconnectivity.n0.0.jsonl.gz'',
      bucket_name = ''ooni-data-eu-fra''\<rparr>"

definition example_minican_entry :: FileEntry where
  "example_minican_entry =
     \<lparr>day = 737723, country_code = ''IT'', fe_test_name = ''webconnectivity'',
      filename = ''2020102500_IT_webconnectivity.n0.0.tar.gz'', fe_size = 300,
      ext = ''tar.gz'',
      s3path = ''raw/20201025/00/IT/webconnectivity/2020102500_IT_webconnectivity.n0.0.tar.gz'',
      bucket_name = ''ooni-data-eu-fra''\<rparr>"

text \<open>2026-11-03, a value for \<^verbatim>\<open>date.today()\<close>.\<close>

definition example_today :: date where
  "example_today = 739923"

section \<open>Reading a container (s3feeder.py, \<^verbatim>\<open>load_multiple\<close>, lines 59 to 161)\<close>

text \<open>A decoded JSON value.  A dict is a list of pairs with distinct keys.\<close>

datatype json =
    JNull
  | JBool bool
  | JNum int
  | JStr string
  | JList "json list"
  | JDict "(string \<times> json) list"

text \<open>\<^verbatim>\<open>d.get(key, default)\<close> on a dict.\<close>

definition dict_get :: "(string \<times> json) list \<Rightarrow> string \<Rightarrow> json \<Rightarrow> json" where
  "dict_get d k dflt = (case map_of d k of None \<Rightarrow> dflt | Some v \<Rightarrow> v)"

text \<open>
  The functions \<^verbatim>\<open>load_multiple\<close> takes from other modules are parameters of the model:
  \<^verbatim>\<open>ujson.loads\<close> (\<open>None\<close> when it raises ValueError), \<^verbatim>\<open>trivial_id\<close> of
  \<^verbatim>\<open>.utils\<close> and \<^verbatim>\<open>iter_yaml_msmt_normalized\<close> of \<^verbatim>\<open>.normalize\<close> (the records it
  yields for a stream of lines, the bucket timestamp and the report file name).
\<close>

record env =
  loads :: "string \<Rightarrow> json option"
  trivial_id :: "json \<Rightarrow> string"
  iter_yaml_msmt_normalized :: "string list \<Rightarrow> string \<Rightarrow> string \<Rightarrow> json list"

text \<open>
  A member of a tar archive: its name and, for a regular file, its lines
  (\<^verbatim>\<open>extractfile\<close> returns \<^verbatim>\<open>None\<close> for a member that is not a file).  Iterating the file
  object gives the lines, \<^verbatim>\<open>k.read()\<close> their concatenation.
\<close>

record tar_member =
  m_name :: string
  m_file :: "string list option"

text \<open>
  What a container file decodes to: the lines of a compressed text file, or the members
  of a tar archive.  Opening a file that does not exist is FileNotFoundError.  A text
  file opened as a tar archive is a \<^verbatim>\<open>tarfile.ReadError\<close>.  A tar archive opened as a
  text file is decompressed like any other file and its first line is not JSON: the
  first \<^verbatim>\<open>ujson.loads\<close> raises ValueError.
\<close>

datatype contents =
    Lines "string list"
  | Members "tar_member list"

definition open_lines :: "contents option \<Rightarrow> error + string list" where
  "open_lines c =
     (case c of None \<Rightarrow> Inl FileNotFoundError
      | Some (Lines ls) \<Rightarrow> Inr ls
      | Some (Members ms) \<Rightarrow> Inl ValueError)"

definition open_tar :: "contents option \<Rightarrow> error + tar_member list" where
  "open_tar c =
     (case c of None \<Rightarrow> Inl FileNotFoundError
      | Some (Members ms) \<Rightarrow> Inr ms
      | Some (Lines ls) \<Rightarrow> Inl ReadError)"

text \<open>
  \<^verbatim>\<open>MsmtTup\<close>: (measurement bytes, measurement dict, uid).  The result of a reader is the
  list of tuples it yields and the exception that ends the iteration, if any.
\<close>

type_synonym msmt_tup = "string option \<times> json \<times> string"

text \<open>
  \<^verbatim>\<open>for line in f: msm = ujson.loads(line); msmt_uid = trivial_id(msm); yield (None, msm,
  msmt_uid)\<close>, the loop of lines 81 to 84, 97 to 100 and 105 to 108.  There is no handler
  around \<^verbatim>\<open>ujson.loads\<close>.
\<close>

fun load_lines :: "env \<Rightarrow> string list \<Rightarrow> msmt_tup list \<times> error option" where
  "load_lines e [] = ([], None)"
| "load_lines e (line # rest) =
     (case loads e line of
        None \<Rightarrow> ([], Some ValueError)
      | Some msm \<Rightarrow>
          (case load_lines e rest of (ys, r) \<Rightarrow> ((None, msm, trivial_id e msm) # ys, r)))"

text \<open>Lines 87 to 92 and 113 to 118.\<close>

definition load_yaml :: "env \<Rightarrow> string \<Rightarrow> string list \<Rightarrow> msmt_tup list \<times> error option" where
  "load_yaml e fn k =
     (case idx_last2 (split_on CHR ''/'' fn) of
        Inl err \<Rightarrow> ([], Some err)
      | Inr bucket_tstamp \<Rightarrow>
          (let rfn = bucket_tstamp @ ''/'' @ last (split_on CHR ''/'' fn)
           in (map (\<lambda>msm. (None, msm, trivial_id e msm))
                   (iter_yaml_msmt_normalized e k bucket_tstamp rfn), None)))"

text \<open>The \<^verbatim>\<open>while True\<close> loop over the members of a legacy can (lines 72 to 92).\<close>

fun load_tar_lz4 :: "env \<Rightarrow> string \<Rightarrow> tar_member list \<Rightarrow> msmt_tup list \<times> error option" where
  "load_tar_lz4 e fn [] = ([], None)"
| "load_tar_lz4 e fn (m # rest) =
     (case m_file m of
        None \<Rightarrow> ([], Some AssertionError)
      | Some k \<Rightarrow>
          (case (if endswith (m_name m) ''.json'' then load_lines e k
                 else if endswith (m_name m) ''.yaml'' then load_yaml e fn k
                 else ([], None)) of
             (ys, Some err) \<Rightarrow> (ys, Some err)
           | (ys, None) \<Rightarrow>
               (case load_tar_lz4 e fn rest of (zs, r) \<Rightarrow> (ys @ zs, r))))"

text \<open>
  The \<^verbatim>\<open>while True\<close> loop over the members of a minican (lines 123 to 155).
  The handler of the \<^verbatim>\<open>try\<close> around \<^verbatim>\<open>ujson.loads(k.read())\<close> calls
  \<^verbatim>\<open>log.error(repr(k[:100]), exc_info=1)\<close>: \<open>k\<close> is the file object \<^verbatim>\<open>extractfile\<close>
  returned, which cannot be subscripted, so the handler itself raises TypeError before
  it reaches \<^verbatim>\<open>continue\<close>.  \<^verbatim>\<open>j.get\<close> on a value that is not a dict is an
  AttributeError, and \<^verbatim>\<open>m.name.rsplit("/", 1)[1]\<close> is an IndexError for a name without
  \<open>/\<close>.  \<^verbatim>\<open>msmt_uid[:-5]\<close> drops the last five characters.
\<close>

fun load_tar_gz :: "env \<Rightarrow> tar_member list \<Rightarrow> msmt_tup list \<times> error option" where
  "load_tar_gz e [] = ([], None)"
| "load_tar_gz e (m # rest) =
     (case m_file m of
        None \<Rightarrow> ([], Some AssertionError)
      | Some k \<Rightarrow>
          if \<not> endswith (m_name m) ''.post'' then load_tar_gz e rest
          else (case loads e (concat k) of
                  None \<Rightarrow> ([], Some TypeError)
                | Some (JDict j) \<Rightarrow>
                    (let fmt = dict_get j ''format'' (JStr [])
                     in if fmt = JStr ''json'' then
                          (let msm = dict_get j ''content'' (JDict [])
                           in case idx (rsplit1 CHR ''/'' (m_name m)) 1 of
                                Inl err \<Rightarrow> ([], Some err)
                              | Inr msmt_uid \<Rightarrow>
                                  (case load_tar_gz e rest of
                                     (ys, r) \<Rightarrow>
                                       ((None, msm, take (length msmt_uid - 5) msmt_uid) # ys, r)))
                        else if fmt = JStr ''yaml'' then load_tar_gz e rest
                        else load_tar_gz e rest)
                | Some _ \<Rightarrow> ([], Some AttributeError)))"

text \<open>\<^verbatim>\<open>load_multiple(fn)\<close>; the last argument is what the file \<open>fn\<close> holds.\<close>

definition load_multiple :: "env \<Rightarrow> string \<Rightarrow> contents option \<Rightarrow> msmt_tup list \<times> error option" where
  "load_multiple e fn c =
     (if endswith fn ''.tar.lz4'' then
        (case open_tar c of Inl err \<Rightarrow> ([], Some err) | Inr ms \<Rightarrow> load_tar_lz4 e fn ms)
      else if endswith fn ''.json.lz4'' then
        (case open_lines c of Inl err \<Rightarrow> ([], Some err) | Inr ls \<Rightarrow> load_lines e ls)
      else if endswith fn ''.jsonl.gz'' then
        (case open_lines c of Inl err \<Rightarrow> ([], Some err) | Inr ls \<Rightarrow> load_lines e ls)
      else if endswith fn ''.yaml.lz4'' then
        (case open_lines c of Inl err \<Rightarrow> ([], Some err) | Inr ls \<Rightarrow> load_yaml e fn ls)
      else if endswith fn ''.tar.gz'' then
        (case open_tar c of Inl err \<Rightarrow> ([], Some err) | Inr ms \<Rightarrow> load_tar_gz e ms)
      else if endswith fn ''/index.json.gz'' then ([], None)
      else ([], Some RuntimeError))"

text \<open>
  What the specification says a minican yields: the \<open>.post\<close> members whose envelope
  has the format \<open>json\<close>, each with the content of the envelope and, as uid, the base
  name of the member without the suffix \<open>.post\<close>.
\<close>

definition basename :: "string \<Rightarrow> string" where
  "basename n = last (split_on CHR ''/'' n)"

definition json_envelope :: "env \<Rightarrow> tar_member \<Rightarrow> msmt_tup list" where
  "json_envelope e m =
     (if endswith (m_name m) ''.post'' then
        (case loads e (concat (or_empty (m_file m))) of
           Some (JDict j) \<Rightarrow>
             if map_of j ''format'' = Some (JStr ''json'')
             then [(None, dict_get j ''content'' (JDict []),
                    take (length (basename (m_name m)) - 5) (basename (m_name m)))]
             else []
         | _ \<Rightarrow> [])
      else [])"

definition minican_json_envelopes :: "env \<Rightarrow> tar_member list \<Rightarrow> msmt_tup list" where
  "minican_json_envelopes e ms = concat (map (json_envelope e) ms)"

text \<open>
  A well-formed member of a minican: a regular file that, when its name ends in
  \<open>.post\<close>, holds a JSON object, and a JSON envelope is kept in the archive under a
  directory.  These are the members on which the loop of the minican reader does not
  raise.
\<close>

definition envelope_ok :: "env \<Rightarrow> tar_member \<Rightarrow> bool" where
  "envelope_ok e m =
     (case m_file m of
        None \<Rightarrow> False
      | Some k \<Rightarrow>
          if endswith (m_name m) ''.post''
          then (case loads e (concat k) of
                  Some (JDict j) \<Rightarrow>
                    if dict_get j ''format'' (JStr []) = JStr ''json''
                    then CHR ''/'' \<in> set (m_name m) else True
                | _ \<Rightarrow> False)
          else True)"

section \<open>The cache and the stream of measurements (s3feeder.py, lines 224 to 231 and 427 to 533)\<close>

subsection \<open>Paths\<close>

text \<open>
  A \<^verbatim>\<open>pathlib.Path\<close> (POSIX flavour) is the tuple of its \<^verbatim>\<open>parts\<close>; an absolute path has
  \<open>/\<close> as its first part.  \<^verbatim>\<open>p / c\<close> parses the string \<open>c\<close>: empty pieces and \<open>.\<close> are
  dropped, and a \<open>c\<close> that starts with \<open>/\<close> replaces \<open>p\<close>.  (A path that starts with
  exactly two slashes keeps them in Python; such paths are not modelled.)
\<close>

type_synonym path = "string list"

definition path_parts :: "string \<Rightarrow> string list" where
  "path_parts s = filter (\<lambda>x. x \<noteq> [] \<and> x \<noteq> ''.'') (split_on CHR ''/'' s)"

definition joinpath :: "path \<Rightarrow> string \<Rightarrow> path" where
  "joinpath p c = (if c \<noteq> [] \<and> hd c = CHR ''/'' then ''/'' # path_parts c else p @ path_parts c)"


fun join_with :: "string \<Rightarrow> string list \<Rightarrow> string" where
  "join_with sep [] = []"
| "join_with sep [x] = x"
| "join_with sep (x # y # ys) = x @ sep @ join_with sep (y # ys)"

definition as_posix :: "path \<Rightarrow> string" where
  "as_posix p =
     (case p of
        [] \<Rightarrow> ''.''
      | r # rest \<Rightarrow> if r = ''/'' then ''/'' @ join_with ''/'' rest else join_with ''/'' p)"

text \<open>\<^verbatim>\<open>Path.name\<close>, \<^verbatim>\<open>Path.suffix\<close> (of a name) and \<^verbatim>\<open>Path.with_suffix\<close>.\<close>

definition path_name :: "path \<Rightarrow> string" where
  "path_name p = (if p = [] \<or> last p = ''/'' then [] else last p)"

definition suffix_of :: "string \<Rightarrow> string" where
  "suffix_of name =
     (if CHR ''.'' \<in> set name then
        (let i = length name - 1 - length (takeWhile (\<lambda>c. c \<noteq> CHR ''.'') (rev name))
         in if 0 < i \<and> i < length name - 1 then drop i name else [])
      else [])"

definition with_suffix :: "path \<Rightarrow> string \<Rightarrow> error + path" where
  "with_suffix p suf =
     (let name = path_name p
      in if name = [] then Inl ValueError
         else (let old_suffix = suffix_of name;
                   name' = (if old_suffix = [] then name @ suf
                            else take (length name - length old_suffix) name @ suf)
               in Inr (butlast p @ [name'])))"

text \<open>\<^verbatim>\<open>FileEntry.output_path\<close> (lines 224 to 231).\<close>

definition output_path :: "FileEntry \<Rightarrow> path \<Rightarrow> path" where
  "output_path fe dst_dir =
     joinpath (joinpath (joinpath (joinpath dst_dir (fe_test_name fe)) (country_code fe))
                 (strftime_iso (day fe)))
       (filename fe)"

subsection \<open>The local disk and the object storage\<close>

text \<open>
  A file on disk has a size in bytes, the container it decodes to and a modification
  time.  The state of the world is the files on disk, the clock, the list of the file
  system and storage operations done so far, and the exceptions logged with
  \<^verbatim>\<open>log.error\<close>.  Directories are not files of the model; \<^verbatim>\<open>mkdir\<close> only leaves its event.
\<close>

record disk_file =
  st_size :: int
  f_contents :: contents
  st_mtime :: nat

datatype fs_event =
    Touch path
  | Mkdir path
  | OpenWrite path
  | Download string string path
  | Fsync path
  | Rename path path
  | Unlink path

record world =
  files :: "path \<rightharpoonup> disk_file"
  now :: nat
  events :: "fs_event list"
  errlog :: "error list"

text \<open>
  Modelled from the spec: the object storage (spec 6, \<^verbatim>\<open>get_object(bucket, key, writer,
  progress_cb)\<close>).  A store gives, for a bucket and a key, the size of the object and
  the container it holds, or nothing when the request fails (ClientError).
\<close>

type_synonym store = "string \<Rightarrow> string \<Rightarrow> (int \<times> contents) option"

subsection \<open>\<^verbatim>\<open>download_measurement_container\<close> (lines 427 to 470)\<close>

text \<open>Lines 431 to 433: the cache hit.\<close>

definition cache_hit :: "world \<Rightarrow> path \<Rightarrow> disk_file \<Rightarrow> (error + path) \<times> world" where
  "cache_hit w diskf f =
     (Inr diskf,
      w\<lparr>files := (files w)(diskf \<mapsto> f\<lparr>st_mtime := now w\<rparr>),
        events := events w @ [Touch diskf]\<rparr>)"

text \<open>
  Lines 434 to 470: the cache miss.  \<^verbatim>\<open>tmpf.open("wb")\<close> creates the temporary file
  empty; when the download raises, the exception leaves the function and the temporary
  file stays.  The \<^verbatim>\<open>assert\<close> after the rename raises AssertionError.
\<close>

definition cache_miss :: "store \<Rightarrow> world \<Rightarrow> path \<Rightarrow> FileEntry \<Rightarrow> (error + path) \<times> world" where
  "cache_miss s3 w diskf file_entry =
     (let w1 = w\<lparr>events := events w @ [Mkdir (butlast diskf)]\<rparr>
      in case with_suffix diskf ''.s3tmp'' of
           Inl err \<Rightarrow> (Inl err, w1)
         | Inr tmpf \<Rightarrow>
             (let w2 = w1\<lparr>files := (files w1)(tmpf \<mapsto>
                              \<lparr>st_size = 0, f_contents = Lines [], st_mtime = now w1\<rparr>),
                           events := events w1 @ [OpenWrite tmpf]\<rparr>
              in case s3 (bucket_name file_entry) (s3path file_entry) of
                   None \<Rightarrow> (Inl ClientError, w2)
                 | Some (n, c) \<Rightarrow>
                     (let downloaded = \<lparr>st_size = n, f_contents = c, st_mtime = now w2\<rparr>;
                          w3 = w2\<lparr>files := (files w2)(tmpf \<mapsto> downloaded),
                                  events := events w2
                                    @ [Download (bucket_name file_entry) (s3path file_entry) tmpf,
                                       Fsync tmpf]\<rparr>;
                          w4 = w3\<lparr>files := ((files w3)(tmpf := None))(diskf \<mapsto> downloaded),
                                  events := events w3 @ [Rename tmpf diskf]\<rparr>
                      in if fe_size file_entry = n then (Inr diskf, w4)
                         else (Inl AssertionError, w4))))"

definition download_measurement_container ::
  "store \<Rightarrow> world \<Rightarrow> path \<Rightarrow> FileEntry \<Rightarrow> (error + path) \<times> world" where
  "download_measurement_container s3 w s3cachedir file_entry =
     (let diskf = output_path file_entry s3cachedir
      in case files w diskf of
           Some f \<Rightarrow>
             if fe_size file_entry = st_size f then cache_hit w diskf f
             else cache_miss s3 w diskf file_entry
         | None \<Rightarrow> cache_miss s3 w diskf file_entry)"

subsection \<open>\<^verbatim>\<open>stream_measurements\<close> and \<^verbatim>\<open>stream_jsonl\<close> (lines 473 to 500, 524 to 533)\<close>

text \<open>
  What can be passed for \<^verbatim>\<open>file_entries\<close>: a list, which every \<^verbatim>\<open>for\<close> iterates from its
  start, or a generator, which gives each of its elements once; a generator may end in
  an exception.  \<open>drain\<close> is one complete iteration: the elements seen, the exception
  that ended it, and the iterable afterwards.
\<close>

datatype 'a iterable =
    PyList "'a list"
  | PyGen "'a list" "error option"

fun drain :: "'a iterable \<Rightarrow> 'a list \<times> error option \<times> 'a iterable" where
  "drain (PyList xs) = (xs, None, PyList xs)"
| "drain (PyGen xs r) = (xs, r, PyGen [] None)"

text \<open>\<^verbatim>\<open>mc.unlink()\<close>, with FileNotFoundError ignored (lines 496 to 500).\<close>

definition unlink_cached :: "bool \<Rightarrow> path \<Rightarrow> world \<Rightarrow> world" where
  "unlink_cached keep_s3_cache mc w =
     (if \<not> keep_s3_cache
      then w\<lparr>files := (files w)(mc := None), events := events w @ [Unlink mc]\<rparr>
      else w)"

text \<open>
  The \<^verbatim>\<open>for fe in file_entries\<close> loop (lines 483 to 500) over the entries the iteration
  gives.  An exception of the download leaves the generator.  An exception of
  \<^verbatim>\<open>load_multiple\<close> is logged and the loop goes on.  \<^verbatim>\<open>mbps\<close> is zero exactly when
  \<^verbatim>\<open>processed_size\<close> is (the elapsed time is positive), and then the division for the
  ETA raises ZeroDivisionError.
\<close>

fun stream_loop ::
  "env \<Rightarrow> store \<Rightarrow> path \<Rightarrow> bool \<Rightarrow> int \<Rightarrow> FileEntry list \<Rightarrow> int \<Rightarrow> world
     \<Rightarrow> msmt_tup list \<times> error option \<times> world" where
  "stream_loop e s3 s3cachedir keep total_size [] processed_size w = ([], None, w)"
| "stream_loop e s3 s3cachedir keep total_size (fe # rest) processed_size w =
     (case download_measurement_container s3 w s3cachedir fe of
        (Inl err, w1) \<Rightarrow> ([], Some err, w1)
      | (Inr mc, w1) \<Rightarrow>
          (case load_multiple e (as_posix mc) (map_option f_contents (files w1 mc)) of
             (ys, r) \<Rightarrow>
               (let w2 = (case r of None \<Rightarrow> w1 | Some err \<Rightarrow> w1\<lparr>errlog := errlog w1 @ [err]\<rparr>);
                    processed_size' = processed_size + fe_size fe
                in if processed_size' = 0 then (ys, Some ZeroDivisionError, w2)
                   else (case stream_loop e s3 s3cachedir keep total_size rest processed_size'
                                (unlink_cached keep mc w2) of
                           (zs, r', w3) \<Rightarrow> (ys @ zs, r', w3)))))"

text \<open>
  \<^verbatim>\<open>stream_measurements\<close>: line 480 iterates \<^verbatim>\<open>file_entries\<close> once for the sum of the
  sizes, line 483 iterates it again.
\<close>

definition stream_measurements ::
  "env \<Rightarrow> store \<Rightarrow> world \<Rightarrow> FileEntry iterable \<Rightarrow> path \<Rightarrow> bool
     \<Rightarrow> msmt_tup list \<times> error option \<times> world" where
  "stream_measurements e s3 w file_entries s3cachedir keep_s3_cache =
     (case drain file_entries of
        (summed, Some err, it1) \<Rightarrow> ([], Some err, w)
      | (summed, None, it1) \<Rightarrow>
          (let total_size = sum_list (map fe_size summed)
           in case drain it1 of
                (fes, r1, it2) \<Rightarrow>
                  (case stream_loop e s3 s3cachedir keep_s3_cache total_size fes 0 w of
                     (ys, None, w') \<Rightarrow> (ys, r1, w')
                   | (ys, Some err, w') \<Rightarrow> (ys, Some err, w'))))"

text \<open>\<^verbatim>\<open>stream_jsonl\<close> passes the generator \<^verbatim>\<open>jsonl_in_range\<close> returns.\<close>

definition stream_jsonl ::
  "env \<Rightarrow> store \<Rightarrow> world \<Rightarrow> (string list \<Rightarrow> string list) \<Rightarrow> date \<Rightarrow> s3obj list
     \<Rightarrow> string list \<Rightarrow> string list \<Rightarrow> path \<Rightarrow> bool \<Rightarrow> date \<Rightarrow> date
     \<Rightarrow> msmt_tup list \<times> error option \<times> world" where
  "stream_jsonl e s3 w sched today mc ccs testnames s3cachedir keep_s3_cache start_day end_day =
     (case jsonl_in_range sched today mc ccs testnames start_day end_day of
        (fes, r) \<Rightarrow> stream_measurements e s3 w (PyGen fes r) s3cachedir keep_s3_cache)"

section \<open>\<^verbatim>\<open>process_day\<close> (processing.py, lines 98 to 105 and 160 to 188)\<close>






section \<open>Example containers\<close>

text \<open>
  Values for the parameters, used in the examples only.  \<open>example_loads\<close> is
  \<^verbatim>\<open>ujson.loads\<close> on the four well-formed texts of the examples; every other text,
  among them the cut-off line \<open>example_bad_line\<close>, is taken as malformed.
  \<open>example_trivial_id\<close> stands for the hash of \<^verbatim>\<open>trivial_id\<close>.
\<close>

definition example_json_envelope :: string where
  \<open>example_json_envelope = ''{"format": "json", "content": {"test_name": "signal"}}''\<close>

definition example_yaml_envelope :: string where
  \<open>example_yaml_envelope = ''{"format": "yaml", "content": "---"}''\<close>

definition example_line1 :: string where
  \<open>example_line1 = ''{"test_name": "web_connectivity"}\<newline>''\<close>

definition example_line2 :: string where
  \<open>example_line2 = ''{"test_name": "signal"}\<newline>''\<close>

definition example_bad_line :: string where
  \<open>example_bad_line = ''{"test_name": \<newline>''\<close>

definition example_loads :: "string \<Rightarrow> json option" where
  "example_loads s =
     (if s = example_json_envelope
      then Some (JDict [(''format'', JStr ''json''),
                        (''content'', JDict [(''test_name'', JStr ''signal'')])])
      else if s = example_yaml_envelope
      then Some (JDict [(''format'', JStr ''yaml''), (''content'', JStr ''---'')])
      else if s = example_line1 then Some (JDict [(''test_name'', JStr ''web_connectivity'')])
      else if s = example_line2 then Some (JDict [(''test_name'', JStr ''signal'')])
      else None)"

definition example_trivial_id :: "json \<Rightarrow> string" where
  "example_trivial_id msm =
     (case msm of
        JDict d \<Rightarrow> ''00'' @ (case map_of d ''test_name'' of Some (JStr n) \<Rightarrow> n | _ \<Rightarrow> [])
      | _ \<Rightarrow> ''00'')"

definition example_env :: env where
  "example_env =
     \<lparr>loads = example_loads, trivial_id = example_trivial_id,
      iter_yaml_msmt_normalized = (\<lambda>k bucket_tstamp rfn. [])\<rparr>"

text \<open>A minican with a JSON envelope, a YAML envelope and a second JSON envelope.\<close>

definition example_minican :: "tar_member list" where
  "example_minican =
     [\<lparr>m_name = ''2021061400_JO_signal/20210614004521.999962_JO_signal_68eb19b439326d60.post'',
       m_file = Some [example_json_envelope]\<rparr>,
      \<lparr>m_name = ''2021061400_JO_signal/20210614004522.000001_JO_signal_0000000000000001.post'',
       m_file = Some [example_yaml_envelope]\<rparr>,
      \<lparr>m_name = ''2021061400_JO_signal/20210614004523.000002_JO_signal_0000000000000002.post'',
       m_file = Some [example_json_envelope]\<rparr>]"

text \<open>
  The storage holds, for the JSONL object of the example bucket, a file of two lines; the
  disk is empty.  A second world has that file in the cache already.
\<close>

definition example_store :: store where
  "example_store bucket key =
     (if bucket = MC_BUCKET_NAME \<and> key = Key example_jsonl_obj
      then Some (200, Lines [example_line1, example_line2])
      else None)"

definition example_world :: world where
  "example_world = \<lparr>files = Map.empty, now = 7, events = [], errlog = []\<rparr>"




definition example_minican_path :: string where
  "example_minican_path = ''cache/signal/JO/2021-06-14/2021061400_JO_signal.n0.0.tar.gz''"


text \<open>
  A second JSONL file of 2020-10-25, for the hour 01, and a storage in which the file of
  the hour 00 has a cut-off second line and the file of the hour 01 is well formed.
\<close>

definition example_second_obj :: s3obj where
  "example_second_obj =
     \<lparr>Key = ''raw/20201025/01/IT/webconnectivity/2020102501_IT_webconnectivity.n0.0.jsonl.gz'',
      Size = 90\<rparr>"

definition example_second_entry :: FileEntry where
  "example_second_entry =
     \<lparr>day = 737723, country_code = ''IT'', fe_test_name = ''webconnectivity'',
      filename = ''2020102501_IT_webconnectivity.n0.0.jsonl.gz'', fe_size = 90,
      ext = ''jsonl.gz'',
      s3path = ''raw/20201025/01/IT/webconnectivity/2020102501_IT_webconnectivity.n0.0.jsonl.gz'',
      bucket_name = ''ooni-data-eu-fra''\<rparr>"





text \<open>The example minican with a cut-off envelope in front of its three members.\<close>

definition example_broken_minican :: "tar_member list" where
  "example_broken_minican =
     \<lparr>m_name = ''2021061400_JO_signal/20210614004520.000000_JO_signal_0000000000000000.post'',
      m_file = Some [example_bad_line]\<rparr> # example_minican"

text \<open>
  Objects for further buckets: an empty JSONL file, a JSONL file whose name has an empty
  country field, an object whose name is not the name of a container, and a JSONL file
  of 2020-10-25 stored under \<open>jsonl/\<close>.
\<close>

definition example_empty_obj :: s3obj where
  "example_empty_obj =
     \<lparr>Key = ''raw/20201025/00/IT/webconnectivity/2020102500_IT_webconnectivity.n0.1.jsonl.gz'',
      Size = 0\<rparr>"

definition example_nocc_obj :: s3obj where
  "example_nocc_obj =
     \<lparr>Key = ''raw/20201025/00/XX/webconnectivity/2020102500__webconnectivity.n0.0.jsonl.gz'',
      Size = 50\<rparr>"

definition example_index_obj :: s3obj where
  "example_index_obj = \<lparr>Key = ''raw/20201025/index.json.gz'', Size = 10\<rparr>"

definition example_late_obj :: s3obj where
  "example_late_obj =
     \<lparr>Key = ''jsonl/webconnectivity/IT/20201025/00/20201025_IT_webconnectivity.n0.0.jsonl.gz'',
      Size = 100\<rparr>"

text \<open>The entries the objects of the examples are listed as.\<close>

definition example_old_entry :: FileEntry where
  "example_old_entry =
     \<lparr>day = 737717, country_code = ''IT'', fe_test_name = ''webconnectivity'',
      filename = ''20201019_IT_webconnectivity.n0.0.jsonl.gz'', fe_size = 100,
      ext = ''jsonl.gz'',
      s3path = ''jsonl/webconnectivity/IT/20201019/00/20201019_IT_webconnectivity.n0.0.jsonl.gz'',
      bucket_name = ''ooni-data-eu-fra''\<rparr>"

definition example_empty_entry :: FileEntry where
  "example_empty_entry =
     \<lparr>day = 737723, country_code = ''IT'', fe_test_name = ''webconnectivity'',
      filename = ''2020102500_IT_webconnectivity.n0.1.jsonl.gz'', fe_size = 0,
      ext = ''jsonl.gz'',
      s3path = ''raw/20201025/00/IT/webconnectivity/2020102500_IT_webconnectivity.n0.1.jsonl.gz'',
      bucket_name = ''ooni-data-eu-fra''\<rparr>"

definition example_nocc_entry :: FileEntry where
  "example_nocc_entry =
     \<lparr>day = 737723, country_code = [], fe_test_name = ''webconnectivity'',
      filename = ''2020102500__webconnectivity.n0.0.jsonl.gz'', fe_size = 50,
      ext = ''jsonl.gz'',
      s3path = ''raw/20201025/00/XX/webconnectivity/2020102500__webconnectivity.n0.0.jsonl.gz'',
      bucket_name = ''ooni-data-eu-fra''\<rparr>"

definition example_late_entry :: FileEntry where
  "example_late_entry =
     \<lparr>day = 737723, country_code = ''IT'', fe_test_name = ''webconnectivity'',
      filename = ''20201025_IT_webconnectivity.n0.0.jsonl.gz'', fe_size = 100,
      ext = ''jsonl.gz'',
      s3path = ''jsonl/webconnectivity/IT/20201025/00/20201025_IT_webconnectivity.n0.0.jsonl.gz'',
      bucket_name = ''ooni-data-eu-fra''\<rparr>"


section \<open>Properties of strings\<close>

lemma split_on_nonempty: "split_on c s \<noteq> []"
  by (induction s) (auto split: list.splits)

lemma length_split_on: "length (split_on c s) = Suc (length (filter (\<lambda>x. x = c) s))"
  by (induction s) (auto split: list.splits)

lemma split_on_notin: "c \<notin> set s \<Longrightarrow> split_on c s = [s]"
  by (induction s) auto

lemma last_split_on: "last (split_on c s) = rev (takeWhile (\<lambda>x. x \<noteq> c) (rev s))"
proof (induction s)
  case Nil
  then show ?case by simp
next
  case (Cons x xs)
  show ?case
  proof (cases "c \<in> set xs")
    case False
    then show ?thesis
      by (cases "x = c") (auto simp: split_on_notin takeWhile_append)
  next
    case True
    then have "filter (\<lambda>x. x = c) xs \<noteq> []"
      by (auto simp: filter_empty_conv)
    then have "2 \<le> length (split_on c xs)"
      by (cases "filter (\<lambda>x. x = c) xs") (auto simp: length_split_on)
    then obtain w v ws where ws: "split_on c xs = w # v # ws"
      by (cases "split_on c xs"; cases "tl (split_on c xs)") auto
    have "takeWhile (\<lambda>x. x \<noteq> c) (rev xs @ [x]) = takeWhile (\<lambda>x. x \<noteq> c) (rev xs)"
      using True by (auto simp: takeWhile_append)
    moreover have "last (split_on c (x # xs)) = last (split_on c xs)"
      using ws by auto
    ultimately show ?thesis using Cons by simp
  qed
qed

lemma startswith_append: "startswith s (p @ q) \<Longrightarrow> startswith s p"
proof -
  assume "startswith s (p @ q)"
  then have "take (length p) (take (length (p @ q)) s) = take (length p) (p @ q)"
    by (simp add: startswith_def)
  then show ?thesis by (simp add: startswith_def min_def)
qed

lemma startswith_decompose: "startswith s p \<Longrightarrow> \<exists>r. s = p @ r"
  unfolding startswith_def by (metis append_take_drop_id)

lemma split_on_sep: "c \<notin> set a \<Longrightarrow> split_on c (a @ c # b) = a # split_on c b"
  by (induction a) auto

lemma split_on_snoc: "split_on c (s @ [c]) = split_on c s @ [[]]"
  by (induction s) (auto split: list.splits simp: split_on_nonempty)

lemma takeWhile_sep: "c \<notin> set x \<Longrightarrow> takeWhile (\<lambda>d. d \<noteq> c) (x @ c # r) = x"
  by (induction x) auto

section \<open>Properties of \<^verbatim>\<open>date_interval\<close>\<close>

lemma day_loop_upto: "day_loop a b = [a..b - 1]"
proof (induction a b rule: day_loop.induct)
  case (1 day stop_day)
  show ?case
  proof (cases "day < stop_day")
    case True
    then have "[day..stop_day - 1] = day # [day + 1..stop_day - 1]"
      by (simp add: upto_rec1)
    with True 1 show ?thesis
      by (simp add: day_loop.simps [of day stop_day])
  next
    case False
    then show ?thesis
      by (simp add: day_loop.simps [of day stop_day])
  qed
qed

lemma set_day_loop: "set (day_loop a b) = {a..<b}"
  by (auto simp: day_loop_upto)

text \<open>
  Claim C10.  Iterating \<^verbatim>\<open>date_interval(start_day, end_day)\<close> with a falsy start day, or
  with a start day on or after today, raises RuntimeError instead of yielding the empty
  sequence; no day that is yielded is today or later; and when the end day is today or
  later (and the start day is before today) the days yielded are exactly those from the
  start day up to yesterday.
\<close>

theorem date_interval_stops_before_today:
  "((start_day = None \<or> (\<exists>s. start_day = Some s \<and> today \<le> s)) \<longrightarrow>
      date_interval today start_day end_day = Inl RuntimeError
      \<and> date_interval today start_day end_day \<noteq> Inr [])
   \<and> (date_interval today start_day end_day = Inr ds \<longrightarrow> (\<forall>d \<in> set ds. d < today))
   \<and> (s0 < today \<and> today \<le> e0 \<longrightarrow>
        date_interval today (Some s0) (Some e0) = Inr [s0..today - 1])"
proof (intro conjI impI)
  assume "start_day = None \<or> (\<exists>s. start_day = Some s \<and> today \<le> s)"
  then show "date_interval today start_day end_day = Inl RuntimeError"
    by (auto simp: date_interval_def)
  then show "date_interval today start_day end_day \<noteq> Inr []"
    by simp
next
  assume "date_interval today start_day end_day = Inr ds"
  then show "\<forall>d \<in> set ds. d < today"
    by (auto simp: date_interval_def set_day_loop split: option.splits if_splits)
next
  assume "s0 < today \<and> today \<le> e0"
  then show "date_interval today (Some s0) (Some e0) = Inr [s0..today - 1]"
    by (simp add: date_interval_def day_loop_upto)
qed

theorem date_interval_stops_before_today_witness:
  "date_interval 739923 None (Some 739930) = Inl RuntimeError
   \<and> date_interval 739923 (Some 739923) (Some 739930) = Inl RuntimeError
   \<and> set [739920..739923 - 1] \<subseteq> {d. d < (739923 :: int)}
   \<and> date_interval 739923 (Some 739920) (Some 739930) = Inr [739920..739923 - 1]"
proof -
  have a: "date_interval 739923 None (Some 739930) = Inl RuntimeError"
    using date_interval_stops_before_today [of None 739923 "Some 739930"] by simp
  have b: "date_interval 739923 (Some 739923) (Some 739930) = Inl RuntimeError"
    using date_interval_stops_before_today [of "Some 739923" 739923 "Some 739930"] by simp
  have c: "date_interval 739923 (Some 739920) (Some 739930) = Inr [739920..739923 - 1]"
    using date_interval_stops_before_today [of _ 739923 _ _ 739920 739930] by simp
  have d: "set [739920..739923 - 1] \<subseteq> {d. d < (739923 :: int)}"
    using c date_interval_stops_before_today
      [of "Some 739920" 739923 "Some 739930" "[739920..739923 - 1]"] by blast
  from a b c d show ?thesis by blast
qed

section \<open>Properties of \<^verbatim>\<open>web_connectivity_processor\<close>\<close>

lemma fold_update_other:
  "k \<notin> fst ` set kvs \<Longrightarrow> fold (\<lambda>(k, v) m. m(k \<mapsto> v)) kvs m k = m k"
  by (induction kvs arbitrary: m) (auto split: prod.splits)

lemma dict_of_last:
  "k \<notin> fst ` set ys \<Longrightarrow> dict_of (xs @ (k, v) # ys) k = Some v"
  by (simp add: dict_of_def fold_update_other)

lemma processor_rows:
  "web_connectivity_processor msmt db0 =
     db0
     @ map HTTP (make_http_observations (requests (test_keys msmt)))
     @ map TCP (make_tcp_observations (tcp_connect (test_keys msmt))
          (ip_to_domain_of (make_dns_observations (queries (test_keys msmt)))))
     @ map TLS (make_tls_observations (tls_handshakes (test_keys msmt))
          (network_events (test_keys msmt))
          (ip_to_domain_of (make_dns_observations (queries (test_keys msmt)))))
     @ map DNS (enrich_dns
          (tls_valid_domain_to_ip_of
             (make_tls_observations (tls_handshakes (test_keys msmt))
                (network_events (test_keys msmt))
                (ip_to_domain_of (make_dns_observations (queries (test_keys msmt))))))
          (make_dns_observations (queries (test_keys msmt))))"
  by (simp add: web_connectivity_processor_def write_observations_to_db_def Let_def)

lemma example_msmt_rows:
  "web_connectivity_processor example_msmt [] =
     [HTTP \<lparr>request_url = ''https://example.org/''\<rparr>,
      TCP \<lparr>tcp_ip = ''93.184.216.34'', tcp_port = 443,
           tcp_domain_name = Some ''example.org'', tcp_success = True\<rparr>,
      TLS \<lparr>tls_ip = ''93.184.216.34'', tls_port = 443,
           domain = Some ''example.org'', is_certificate_valid = Some True\<rparr>,
      DNS \<lparr>domain_name = ''example.org'', query_type = ''A'',
           answer = Some ''93.184.216.34'', failure = None, is_tls_consistent = None\<rparr>]"
  by (simp add: processor_rows example_msmt_def make_http_observations_def
      make_tcp_observations_def make_tls_observations_def make_dns_observations_def
      dns_observations_of_query_def or_empty_def ip_to_domain_of_def
      tls_valid_domain_to_ip_of_def enrich_dns_def dict_of_def)

text \<open>
  Claim C1 (the code does not do what the claim says).  The example measurement has the
  DNS answer \<open>93.184.216.34\<close> for \<open>example.org\<close> and a TLS observation for
  \<open>example.org\<close> with \<open>is_certificate_valid = True\<close>.  The dictionary of lines 146 to 148
  is keyed by the TLS observation's domain, line 151 looks the DNS observation's
  \<^emph>\<open>answer\<close> (the address) up in it, so the DNS row is written with
  \<open>is_tls_consistent = None\<close>, not \<open>True\<close>.
\<close>

theorem dns_row_not_annotated_from_tls:
  "web_connectivity_processor example_msmt [] =
     [HTTP \<lparr>request_url = ''https://example.org/''\<rparr>,
      TCP \<lparr>tcp_ip = ''93.184.216.34'', tcp_port = 443,
           tcp_domain_name = Some ''example.org'', tcp_success = True\<rparr>,
      TLS \<lparr>tls_ip = ''93.184.216.34'', tls_port = 443,
           domain = Some ''example.org'', is_certificate_valid = Some True\<rparr>,
      DNS \<lparr>domain_name = ''example.org'', query_type = ''A'',
           answer = Some ''93.184.216.34'', failure = None, is_tls_consistent = None\<rparr>]
   \<and> tls_valid_domain_to_ip_of
        [\<lparr>tls_ip = ''93.184.216.34'', tls_port = 443,
          domain = Some ''example.org'', is_certificate_valid = Some True\<rparr>]
        (Some ''93.184.216.34'') = None"
  by (simp add: example_msmt_rows tls_valid_domain_to_ip_of_def dict_of_def)

text \<open>
  Claim C3, as stated, fails: the rows of the example measurement are not written in the
  order DNS, TCP, TLS, HTTP (the HTTP row is written first and the DNS row last).
\<close>

theorem spec_order_counterexample:
  "\<not> sorted (map spec_rank (web_connectivity_processor example_msmt []))"
  by (simp add: example_msmt_rows)

lemma sorted_map_const: "sorted (map (\<lambda>x. (c :: nat)) xs)"
  by (induction xs) auto

lemma sorted_write_rank:
  "sorted (map write_rank (map HTTP hs @ map TCP ts @ map TLS ls @ map DNS ds))"
  by (auto simp: sorted_append comp_def sorted_map_const)

text \<open>
  Claim C3, amended.  For every measurement the processor appends to the database first
  the HTTP observations, then the TCP, then the TLS and last the (enriched) DNS
  observations, each category in the order its extractor returned it; so the rows written
  are sorted by HTTP, TCP, TLS, DNS.  Within a category the order is that of the source
  list of \<^verbatim>\<open>test_keys\<close>: requests, TCP connects and TLS handshakes one to one, DNS
  answers query by query.
\<close>

theorem processor_write_order:
  "web_connectivity_processor msmt db0 =
     db0
     @ map HTTP (make_http_observations (requests (test_keys msmt)))
     @ map TCP (make_tcp_observations (tcp_connect (test_keys msmt))
          (ip_to_domain_of (make_dns_observations (queries (test_keys msmt)))))
     @ map TLS (make_tls_observations (tls_handshakes (test_keys msmt))
          (network_events (test_keys msmt))
          (ip_to_domain_of (make_dns_observations (queries (test_keys msmt)))))
     @ map DNS (enrich_dns
          (tls_valid_domain_to_ip_of
             (make_tls_observations (tls_handshakes (test_keys msmt))
                (network_events (test_keys msmt))
                (ip_to_domain_of (make_dns_observations (queries (test_keys msmt))))))
          (make_dns_observations (queries (test_keys msmt))))
   \<and> sorted (map write_rank (web_connectivity_processor msmt []))
   \<and> map request_url (make_http_observations (requests (test_keys msmt)))
       = map t_url (or_empty (requests (test_keys msmt)))
   \<and> map (\<lambda>t. (tcp_ip t, tcp_port t)) (make_tcp_observations (tcp_connect (test_keys msmt)) ipd)
       = map (\<lambda>c. (c_ip c, c_port c)) (or_empty (tcp_connect (test_keys msmt)))
   \<and> map (\<lambda>t. (tls_ip t, tls_port t))
         (make_tls_observations (tls_handshakes (test_keys msmt)) evs ipd)
       = map (\<lambda>h. (h_ip h, h_port h)) (or_empty (tls_handshakes (test_keys msmt)))
   \<and> map (\<lambda>d. (domain_name d, answer d))
         (enrich_dns tv (make_dns_observations (queries (test_keys msmt))))
       = concat (map (\<lambda>q. case q_failure q of
                             Some f \<Rightarrow> [(hostname q, None)]
                           | None \<Rightarrow> map (\<lambda>a. (hostname q, Some a)) (q_answers q))
                     (or_empty (queries (test_keys msmt))))"
proof (intro conjI)
  show "sorted (map write_rank (web_connectivity_processor msmt []))"
    unfolding processor_rows append_Nil by (rule sorted_write_rank)
next
  show "map (\<lambda>d. (domain_name d, answer d))
         (enrich_dns tv (make_dns_observations (queries (test_keys msmt))))
       = concat (map (\<lambda>q. case q_failure q of
                             Some f \<Rightarrow> [(hostname q, None)]
                           | None \<Rightarrow> map (\<lambda>a. (hostname q, Some a)) (q_answers q))
                     (or_empty (queries (test_keys msmt))))"
    by (induction "or_empty (queries (test_keys msmt))")
       (auto simp: enrich_dns_def make_dns_observations_def dns_observations_of_query_def
          map_concat comp_def split: option.splits intro!: arg_cong [where f = concat])
qed (simp_all add: processor_rows make_http_observations_def make_tcp_observations_def
      make_tls_observations_def comp_def)

text \<open>
  Claim C9.  When several DNS observations of a measurement carry the same answer, the
  \<^verbatim>\<open>ip_to_domain\<close> dictionary maps that answer to the domain of the last of them in
  measurement order, and every TCP and every TLS observation written for that address
  carries that domain.
\<close>

theorem ip_to_domain_last_wins:
  assumes "make_dns_observations (queries (test_keys msmt)) = xs @ obs # ys"
    and "\<forall>y \<in> set ys. answer y \<noteq> answer obs"
  shows "ip_to_domain_of (make_dns_observations (queries (test_keys msmt))) (answer obs)
           = Some (domain_name obs)
         \<and> (\<forall>t. TCP t \<in> set (web_connectivity_processor msmt []) \<and> Some (tcp_ip t) = answer obs
               \<longrightarrow> tcp_domain_name t = Some (domain_name obs))
         \<and> (\<forall>t. TLS t \<in> set (web_connectivity_processor msmt []) \<and> Some (tls_ip t) = answer obs
               \<longrightarrow> domain t = Some (domain_name obs))"
proof -
  have notin: "answer obs \<notin> fst ` set (map (\<lambda>d. (answer d, domain_name d)) ys)"
    using assms(2) by auto
  have look: "ip_to_domain_of (make_dns_observations (queries (test_keys msmt))) (answer obs)
           = Some (domain_name obs)"
    unfolding ip_to_domain_of_def assms(1) map_append list.map
    by (rule dict_of_last [OF notin])
  have tcp: "tcp_domain_name t = Some (domain_name obs)"
    if "TCP t \<in> set (web_connectivity_processor msmt [])" "Some (tcp_ip t) = answer obs" for t
    using that look by (auto simp: processor_rows make_tcp_observations_def)
  have tls: "domain t = Some (domain_name obs)"
    if "TLS t \<in> set (web_connectivity_processor msmt [])" "Some (tls_ip t) = answer obs" for t
    using that look by (auto simp: processor_rows make_tls_observations_def)
  from look tcp tls show ?thesis by blast
qed

lemma shared_ip_dns:
  "make_dns_observations (queries (test_keys shared_ip_msmt)) =
     [\<lparr>domain_name = ''a.example'', query_type = ''A'', answer = Some ''192.0.2.1'',
       failure = None, is_tls_consistent = None\<rparr>]
     @ \<lparr>domain_name = ''b.example'', query_type = ''A'', answer = Some ''192.0.2.1'',
         failure = None, is_tls_consistent = None\<rparr> # []"
  by (simp add: shared_ip_msmt_def make_dns_observations_def dns_observations_of_query_def
      or_empty_def)

theorem ip_to_domain_last_wins_witness:
  "ip_to_domain_of (make_dns_observations (queries (test_keys shared_ip_msmt)))
       (Some ''192.0.2.1'') = Some ''b.example''
   \<and> TCP \<lparr>tcp_ip = ''192.0.2.1'', tcp_port = 443, tcp_domain_name = Some ''b.example'',
           tcp_success = True\<rparr> \<in> set (web_connectivity_processor shared_ip_msmt [])
   \<and> tcp_domain_name \<lparr>tcp_ip = ''192.0.2.1'', tcp_port = 443,
           tcp_domain_name = Some ''b.example'', tcp_success = True\<rparr> = Some ''b.example''"
proof -
  note w = ip_to_domain_last_wins [OF shared_ip_dns, simplified]
  have look: "ip_to_domain_of (make_dns_observations (queries (test_keys shared_ip_msmt)))
       (Some ''192.0.2.1'') = Some ''b.example''"
    using w by blast
  have row: "TCP \<lparr>tcp_ip = ''192.0.2.1'', tcp_port = 443, tcp_domain_name = Some ''b.example'',
           tcp_success = True\<rparr> \<in> set (web_connectivity_processor shared_ip_msmt [])"
    by (simp add: processor_rows shared_ip_msmt_def make_tcp_observations_def
        make_dns_observations_def dns_observations_of_query_def or_empty_def
        ip_to_domain_of_def dict_of_def)
  from look row show ?thesis by simp
qed

section \<open>Properties of the file catalog\<close>

lemma get_jsonl_prefixes_unfold:
  "get_jsonl_prefixes today mc ccs testnames s e =
     (if today \<le> max date_2020_10_20 s then Inl RuntimeError
      else Inr ((if s < date_2020_10_21
                 then (let P = get_search_prefixes mc
                                 (if testnames = [] then list_all_testnames mc else testnames) ccs;
                           C = List.product P (day_loop s (min e today))
                       in if length C > 1000000
                          then map (\<lambda>(p, d). p @ strftime_Ymd d) C else P)
                 else [])
                @ map (\<lambda>d. ''raw/'' @ strftime_Ymd d)
                      (day_loop (max date_2020_10_20 s) (min e today))))"
  by (auto simp: get_jsonl_prefixes_def date_interval_def Let_def min_def max_def)

lemma yield_entries_sound:
  "fe \<in> set (fst (yield_entries keep rs)) \<Longrightarrow> keep fe \<and> (\<exists>l. Inr l \<in> set rs \<and> fe \<in> set l)"
  by (induction keep rs rule: yield_entries.induct) (auto split: prod.splits)

lemma yield_entries_complete:
  "\<forall>r \<in> set rs. \<exists>l. r = Inr l \<Longrightarrow>
     snd (yield_entries keep rs) = None
     \<and> set (fst (yield_entries keep rs)) = {fe. keep fe \<and> (\<exists>l. Inr l \<in> set rs \<and> fe \<in> set l)}"
  by (induction keep rs rule: yield_entries.induct) (auto split: prod.splits)

lemma collect_Inr: "collect rs = Inr xs \<Longrightarrow> rs = map Inr xs"
  by (induction rs arbitrary: xs rule: collect.induct) (auto split: sum.splits)

lemma collect_all_Inr: "\<forall>r \<in> set rs. \<exists>x. r = Inr x \<Longrightarrow> \<exists>xs. collect rs = Inr xs"
  by (induction rs rule: collect.induct) (auto split: sum.splits)

lemma list_file_entries_Inr:
  "list_file_entries mc p = Inr l \<Longrightarrow>
     set l = {fe. \<exists>f \<in> set (list_objects mc p). parse_file_entry f = Inr fe}"
proof -
  assume "list_file_entries mc p = Inr l"
  then have "map parse_file_entry (list_objects mc p) = map Inr l"
    unfolding list_file_entries_def by (rule collect_Inr)
  then have "Inr ` set l = parse_file_entry ` set (list_objects mc p)"
    by (metis list.set_map)
  then show ?thesis by (auto simp: image_iff) (metis imageI image_iff sum.inject(2))+
qed

lemma list_file_entries_total:
  "\<forall>f \<in> set (list_objects mc p). \<exists>fe. parse_file_entry f = Inr fe \<Longrightarrow>
     \<exists>l. list_file_entries mc p = Inr l"
  unfolding list_file_entries_def by (rule collect_all_Inr) auto

lemma yielded_entry_iff:
  "yielded_entry ccs testnames s e fe \<longleftrightarrow>
     ext fe = ''jsonl.gz'' \<and> 0 < fe_size fe
     \<and> (ccs = [] \<or> country_code fe = [] \<or> country_code fe \<in> set ccs)
     \<and> (testnames = [] \<or> fe_test_name fe = [] \<or> fe_test_name fe \<in> set testnames)
     \<and> s \<le> day fe \<and> day fe < e"
  by (auto simp: yielded_entry_def matches_filter_def)


subsection \<open>Where the listing looks\<close>

lemma penultimate_dir:
  assumes "CHR ''/'' \<notin> set x"
  shows "penultimate (q @ CHR ''/'' # x @ [CHR ''/'']) = x"
proof -
  define parts where "parts = split_on CHR ''/'' (q @ CHR ''/'' # x)"
  have ne: "parts \<noteq> []" by (simp add: parts_def split_on_nonempty)
  have l: "last parts = x"
    using assms takeWhile_sep [of "CHR ''/''" "rev x" "rev q"]
    by (simp add: parts_def last_split_on)
  have "split_on CHR ''/'' (q @ CHR ''/'' # x @ [CHR ''/'']) = parts @ [[]]"
    using split_on_snoc [of "CHR ''/''" "q @ CHR ''/'' # x"] by (simp add: parts_def)
  then have "penultimate (q @ CHR ''/'' # x @ [CHR ''/'']) = (parts @ [[]]) ! (length parts - 1)"
    by (simp add: penultimate_def Let_def)
  also have "\<dots> = parts ! (length parts - 1)"
    using ne by (simp add: nth_append)
  also have "\<dots> = x" using ne l by (simp add: last_conv_nth)
  finally show ?thesis .
qed

lemma common_prefixes_dir:
  assumes f: "f \<in> set mc" and k: "Key f = pfx @ x @ CHR ''/'' # r" and x: "CHR ''/'' \<notin> set x"
  shows "pfx @ x @ [CHR ''/''] \<in> set (common_prefixes mc pfx)"
proof -
  have "f \<in> set (list_objects mc pfx)"
    using f k by (simp add: list_objects_def startswith_def)
  moreover have "drop (length pfx) (Key f) = x @ CHR ''/'' # r" by (simp add: k)
  moreover have "takeWhile (\<lambda>c. c \<noteq> CHR ''/'') (x @ CHR ''/'' # r) = x"
    using x by (rule takeWhile_sep)
  ultimately show ?thesis
    unfolding common_prefixes_def by (auto simp: Let_def intro!: bexI [of _ f])
qed

lemma set_split_on_all: "\<forall>w \<in> set (split_on c s). set w \<subseteq> set s"
  by (induction s) (auto split: if_splits list.splits)

lemma set_split_on: "w \<in> set (split_on c s) \<Longrightarrow> set w \<subseteq> set s"
  using set_split_on_all by blast

lemma set_splitn_all: "\<forall>w \<in> set (splitn n c s). set w \<subseteq> set s"
  by (induction n c s rule: splitn.induct) (auto split: if_splits list.splits, blast+)

lemma set_splitn: "w \<in> set (splitn n c s) \<Longrightarrow> set w \<subseteq> set s"
  using set_splitn_all by blast

lemma basename_no_slash: "CHR ''/'' \<notin> set (last (split_on CHR ''/'' s))"
  by (auto simp: last_split_on dest: set_takeWhileD)

lemma parse_fields_no_slash:
  assumes "parse_file_entry f = Inr fe"
  shows "CHR ''/'' \<notin> set (country_code fe) \<and> CHR ''/'' \<notin> set (fe_test_name fe)"
proof -
  define fname where "fname = last (split_on CHR ''/'' (Key f))"
  define parts where "parts = split_on CHR ''_'' fname"
  have ns: "CHR ''/'' \<notin> set fname" by (simp add: fname_def basename_no_slash)
  from assms have len: "\<not> length parts < 3"
    by (auto simp: parse_file_entry_def Let_def fname_def parts_def split: if_splits)
  have p: "CHR ''/'' \<notin> set (parts ! i)" if "i < 3" for i
  proof -
    have "parts ! i \<in> set parts" using len that by simp
    then have "set (parts ! i) \<subseteq> set fname" unfolding parts_def by (rule set_split_on)
    with ns show ?thesis by auto
  qed
  from assms len obtain tn u v e d where
    sp: "splitn 3 CHR ''.'' (parts ! 2) = [tn, u, v, e]"
    and fe: "fe = \<lparr>day = d, country_code = parts ! 1, fe_test_name = tn,
                   filename = fname, fe_size = Size f, ext = e, s3path = Key f,
                   bucket_name = MC_BUCKET_NAME\<rparr>"
    unfolding parse_file_entry_def Let_def fname_def [symmetric] parts_def [symmetric]
    by (auto split: if_splits list.splits option.splits)
  have "tn \<in> set (splitn 3 CHR ''.'' (parts ! 2))" by (simp add: sp)
  then have "set tn \<subseteq> set (parts ! 2)" by (rule set_splitn)
  with p [of 2] have "CHR ''/'' \<notin> set tn" by auto
  with p [of 1] show ?thesis by (simp add: fe)
qed

lemma in_search_prefixes:
  "tn \<in> set tns \<Longrightarrow> p \<in> set (common_prefixes mc (''jsonl/'' @ tn @ ''/'')) \<Longrightarrow>
   \<not> (ccs \<noteq> [] \<and> penultimate p \<notin> set ccs) \<Longrightarrow>
     p \<in> set (get_search_prefixes mc tns ccs)"
  unfolding get_search_prefixes_def by (simp only: set_concat set_map) fastforce

lemma search_prefix_of_layout:
  assumes f: "f \<in> set mc" and pf: "parse_file_entry f = Inr fe"
    and sw: "startswith (Key f)
               (''jsonl/'' @ fe_test_name fe @ ''/'' @ country_code fe @ ''/'' @ x)"
    and cc: "ccs = [] \<or> country_code fe \<in> set ccs"
    and tn: "testnames = [] \<or> fe_test_name fe \<in> set testnames"
  shows "''jsonl/'' @ fe_test_name fe @ ''/'' @ country_code fe @ ''/''
           \<in> set (get_search_prefixes mc
                    (if testnames = [] then list_all_testnames mc else testnames) ccs)"
proof -
  define J where "J = ''jsonl''"
  define t where "t = fe_test_name fe"
  define c where "c = country_code fe"
  have ns: "CHR ''/'' \<notin> set c" "CHR ''/'' \<notin> set t"
    using parse_fields_no_slash [OF pf] by (simp_all add: c_def t_def)
  from sw obtain r where "Key f = (''jsonl/'' @ t @ ''/'' @ c @ ''/'' @ x) @ r"
    unfolding t_def c_def by (blast dest: startswith_decompose)
  then have k: "Key f = (J @ ''/'') @ t @ CHR ''/'' # (c @ CHR ''/'' # (x @ r))"
    by (simp add: J_def)
  then have k2: "Key f = ((J @ ''/'') @ t @ ''/'') @ c @ CHR ''/'' # (x @ r)"
    by simp
  have a: "(J @ ''/'') @ t @ [CHR ''/''] \<in> set (common_prefixes mc (J @ ''/''))"
    using f k ns(2) by (rule common_prefixes_dir)
  have b: "((J @ ''/'') @ t @ ''/'') @ c @ [CHR ''/'']
             \<in> set (common_prefixes mc ((J @ ''/'') @ t @ ''/''))"
    using f k2 ns(1) by (rule common_prefixes_dir)
  have pa: "penultimate ((J @ ''/'') @ t @ [CHR ''/'']) = t"
    using penultimate_dir [OF ns(2), of J] by simp
  have pb: "penultimate (((J @ ''/'') @ t @ ''/'') @ c @ [CHR ''/'']) = c"
    using penultimate_dir [OF ns(1), of "(J @ ''/'') @ t"] by simp
  have tin: "t \<in> set (if testnames = [] then list_all_testnames mc else testnames)"
  proof (cases "testnames = []")
    case True
    have "penultimate ((J @ ''/'') @ t @ [CHR ''/''])
            \<in> penultimate ` set (common_prefixes mc (J @ ''/''))"
      using a by (rule imageI)
    then have "t \<in> set (list_all_testnames mc)"
      unfolding pa by (simp add: list_all_testnames_def J_def)
    with True show ?thesis by simp
  next
    case False
    with tn show ?thesis by (simp add: t_def)
  qed
  have keep: "\<not> (ccs \<noteq> [] \<and> penultimate (((J @ ''/'') @ t @ ''/'') @ c @ [CHR ''/'']) \<notin> set ccs)"
    unfolding pb using cc by (auto simp: c_def)
  have jeq: "(J @ ''/'') @ t @ ''/'' = ''jsonl/'' @ t @ ''/''" by (simp add: J_def)
  have "((J @ ''/'') @ t @ ''/'') @ c @ [CHR ''/'']
          \<in> set (get_search_prefixes mc
                    (if testnames = [] then list_all_testnames mc else testnames) ccs)"
    using tin b keep unfolding jeq by (rule in_search_prefixes)
  then show ?thesis by (simp add: J_def t_def c_def)
qed

subsection \<open>The example bucket\<close>

lemma example_prefixes_new:
  "get_jsonl_prefixes example_today example_bucket [] [] 737723 737724 = Inr [''raw/20201025'']"
  by code_simp

lemma example_listing_new:
  "list_objects example_bucket ''raw/20201025'' = [example_jsonl_obj, example_minican_obj]"
  by code_simp

lemma example_parse_jsonl: "parse_file_entry example_jsonl_obj = Inr example_jsonl_entry"
  by code_simp

lemma example_parse_minican: "parse_file_entry example_minican_obj = Inr example_minican_entry"
  by code_simp

lemma example_range_new:
  "jsonl_in_range id example_today example_bucket [] [] 737723 737724
     = ([example_jsonl_entry], None)"
  by code_simp

lemma example_common_prefixes:
  "common_prefixes example_bucket ''jsonl/webconnectivity/'' = [''jsonl/webconnectivity/IT/'']"
  by code_simp

lemma example_penultimate: "penultimate ''jsonl/webconnectivity/IT/'' = ''IT''"
  by code_simp

lemma example_search_prefixes:
  "get_search_prefixes example_bucket [''webconnectivity''] [''IT'']
     = [''jsonl/webconnectivity/IT/'']"
  by (simp add: get_search_prefixes_def example_common_prefixes example_penultimate)

lemma example_old_day: "day_loop 737717 737718 = [737717] \<and> day_loop 737718 737718 = []"
  by code_simp

lemma example_old_day_name: "strftime_Ymd 737717 = ''20201019''"
  by code_simp

text \<open>
  Claim C5 (the code does not do what the claim says).  A query for Italy and
  web_connectivity on the single day 2020-10-19 has one (prefix, day) combination.  The
  comparison of line 326 is \<^verbatim>\<open>len(combos) > 1_000_000\<close>, so with one combination the
  prefixes are \<^emph>\<open>not\<close> narrowed to the day: the listing covers the whole
  \<open>jsonl/webconnectivity/IT/\<close> prefix, every day of it, where the claim (and the comment
  above line 325) has the narrow prefix \<open>jsonl/webconnectivity/IT/20201019\<close>.
\<close>

theorem get_jsonl_prefixes_small_query:
  "get_jsonl_prefixes example_today example_bucket [''IT''] [''webconnectivity''] 737717 737718
     = Inr [''jsonl/webconnectivity/IT/'']
   \<and> List.product (get_search_prefixes example_bucket [''webconnectivity''] [''IT''])
        (day_loop 737717 737718) = [(''jsonl/webconnectivity/IT/'', 737717)]
   \<and> strftime_Ymd 737717 = ''20201019''"
  by (simp add: get_jsonl_prefixes_unfold example_search_prefixes example_old_day
      example_old_day_name example_today_def date_2020_10_20_def date_2020_10_21_def)

lemma prefixes_cover:
  assumes t: "max date_2020_10_20 start_day < today"
  shows "\<exists>ps. get_jsonl_prefixes today mc ccs testnames start_day end_day = Inr ps
           \<and> (\<forall>d. max date_2020_10_20 start_day \<le> d \<and> d < end_day \<and> d < today
                 \<longrightarrow> ''raw/'' @ strftime_Ymd d \<in> set ps)
           \<and> (start_day < date_2020_10_21 \<longrightarrow>
                (\<forall>p \<in> set (get_search_prefixes mc
                              (if testnames = [] then list_all_testnames mc else testnames) ccs).
                   \<forall>d. start_day \<le> d \<and> d < end_day \<and> d < today
                     \<longrightarrow> p \<in> set ps \<or> p @ strftime_Ymd d \<in> set ps))"
proof -
  define raw where "raw = (\<lambda>d. ''raw/'' @ strftime_Ymd d)"
  define D where "D = day_loop (max date_2020_10_20 start_day) (min end_day today)"
  define Ds where "Ds = day_loop start_day (min end_day today)"
  define P where "P = get_search_prefixes mc
                        (if testnames = [] then list_all_testnames mc else testnames) ccs"
  define X where "X = (if start_day < date_2020_10_21
                       then (if length (List.product P Ds) > 1000000
                             then map (\<lambda>(p, d). p @ strftime_Ymd d) (List.product P Ds) else P)
                       else [])"
  have nt: "\<not> today \<le> max date_2020_10_20 start_day"
    using t by (auto simp: max_def split: if_splits)
  have eq: "get_jsonl_prefixes today mc ccs testnames start_day end_day = Inr (X @ map raw D)"
    unfolding get_jsonl_prefixes_unfold Let_def X_def D_def Ds_def P_def raw_def
    using nt by (simp only: if_False)
  have r: "raw d \<in> set (X @ map raw D)"
    if "max date_2020_10_20 start_day \<le> d \<and> d < end_day \<and> d < today" for d
  proof -
    from that have "d \<in> set D" by (simp add: D_def set_day_loop)
    then show ?thesis by simp
  qed
  have s: "p \<in> set (X @ map raw D) \<or> p @ strftime_Ymd d \<in> set (X @ map raw D)"
    if lt: "start_day < date_2020_10_21" and p: "p \<in> set P"
      and d: "start_day \<le> d \<and> d < end_day \<and> d < today" for p d
  proof (cases "length (List.product P Ds) > 1000000")
    case True
    from d have "d \<in> set Ds" by (simp add: Ds_def set_day_loop)
    with p have "(p, d) \<in> set (List.product P Ds)" by simp
    then have "(\<lambda>(p, d). p @ strftime_Ymd d) (p, d) \<in> set X"
      unfolding X_def using lt True by (simp only: if_True set_map) (rule imageI)
    then show ?thesis by simp
  next
    case False
    then have "X = P" using lt by (simp add: X_def)
    with p show ?thesis by simp
  qed
  show ?thesis
    unfolding eq using r s unfolding raw_def P_def by blast
qed

lemma jsonl_in_range_listed:
  assumes p: "get_jsonl_prefixes today mc ccs testnames start_day end_day = Inr pfxs"
    and s: "set (sched pfxs) = set pfxs"
    and ok: "\<forall>p \<in> set pfxs. \<forall>g \<in> set (list_objects mc p). \<exists>ge. parse_file_entry g = Inr ge"
  shows "snd (jsonl_in_range sched today mc ccs testnames start_day end_day) = None"
    and "set (fst (jsonl_in_range sched today mc ccs testnames start_day end_day))
           = {fe. (\<exists>p \<in> set pfxs. \<exists>g \<in> set (list_objects mc p). parse_file_entry g = Inr fe)
                  \<and> yielded_entry ccs testnames start_day end_day fe}"
proof -
  let ?rs = "map (list_file_entries mc) (sched pfxs)"
  have run: "jsonl_in_range sched today mc ccs testnames start_day end_day
               = yield_entries (yielded_entry ccs testnames start_day end_day) ?rs"
    using p by (simp add: jsonl_in_range_def)
  have all: "\<forall>r \<in> set ?rs. \<exists>l. r = Inr l"
    using s ok list_file_entries_total [of mc] by auto
  note c = yield_entries_complete [OF all, of "yielded_entry ccs testnames start_day end_day"]
  have listed: "(\<exists>l. Inr l \<in> set ?rs \<and> fe \<in> set l)
        \<longleftrightarrow> (\<exists>p \<in> set pfxs. \<exists>g \<in> set (list_objects mc p). parse_file_entry g = Inr fe)"
    for fe
  proof
    assume "\<exists>l. Inr l \<in> set ?rs \<and> fe \<in> set l"
    then obtain l q where "q \<in> set pfxs" "list_file_entries mc q = Inr l" "fe \<in> set l"
      using s by (auto simp: image_iff) metis
    then show "\<exists>p \<in> set pfxs. \<exists>g \<in> set (list_objects mc p). parse_file_entry g = Inr fe"
      using list_file_entries_Inr [of mc q l] by blast
  next
    assume "\<exists>p \<in> set pfxs. \<exists>g \<in> set (list_objects mc p). parse_file_entry g = Inr fe"
    then obtain q g where q: "q \<in> set pfxs" "g \<in> set (list_objects mc q)"
      "parse_file_entry g = Inr fe" by blast
    then obtain l where l: "list_file_entries mc q = Inr l"
      using ok list_file_entries_total [of mc q] by blast
    with q have "fe \<in> set l" using list_file_entries_Inr [OF l] by blast
    moreover have "Inr l \<in> set ?rs" using l q(1) s by (auto simp: image_iff) metis
    ultimately show "\<exists>l. Inr l \<in> set ?rs \<and> fe \<in> set l" by blast
  qed
  show "snd (jsonl_in_range sched today mc ccs testnames start_day end_day) = None"
    using c run by simp
  show "set (fst (jsonl_in_range sched today mc ccs testnames start_day end_day))
           = {fe. (\<exists>p \<in> set pfxs. \<exists>g \<in> set (list_objects mc p). parse_file_entry g = Inr fe)
                  \<and> yielded_entry ccs testnames start_day end_day fe}"
    using c listed unfolding run by auto
qed

lemma prefixes_computed:
  "get_jsonl_prefixes today mc ccs testnames start_day end_day = Inr pfxs \<Longrightarrow>
     max date_2020_10_20 start_day < today"
  by (auto simp: get_jsonl_prefixes_unfold split: if_splits)

lemma listed_by_layout:
  assumes p: "get_jsonl_prefixes today mc ccs testnames start_day end_day = Inr pfxs"
    and f: "f \<in> set mc" and pf: "parse_file_entry f = Inr fe"
    and cc: "ccs = [] \<or> country_code fe \<in> set ccs"
    and tn: "testnames = [] \<or> fe_test_name fe \<in> set testnames"
    and d: "start_day \<le> day fe" "day fe < end_day" "day fe < today"
    and lay: "(date_2020_10_20 \<le> day fe
                 \<and> startswith (Key f) (''raw/'' @ strftime_Ymd (day fe)))
              \<or> (start_day < date_2020_10_21
                  \<and> startswith (Key f)
                       (''jsonl/'' @ fe_test_name fe @ ''/'' @ country_code fe @ ''/''
                          @ strftime_Ymd (day fe)))"
  shows "\<exists>q \<in> set pfxs. f \<in> set (list_objects mc q)"
proof -
  from prefixes_cover [OF prefixes_computed [OF p], of mc ccs testnames end_day] p
  have raw: "\<forall>d. max date_2020_10_20 start_day \<le> d \<and> d < end_day \<and> d < today
                 \<longrightarrow> ''raw/'' @ strftime_Ymd d \<in> set pfxs"
    and js: "start_day < date_2020_10_21 \<longrightarrow>
                (\<forall>p \<in> set (get_search_prefixes mc
                              (if testnames = [] then list_all_testnames mc else testnames) ccs).
                   \<forall>d. start_day \<le> d \<and> d < end_day \<and> d < today
                     \<longrightarrow> p \<in> set pfxs \<or> p @ strftime_Ymd d \<in> set pfxs)"
    by auto
  from lay show ?thesis
  proof
    assume a: "date_2020_10_20 \<le> day fe
                 \<and> startswith (Key f) (''raw/'' @ strftime_Ymd (day fe))"
    with d have "max date_2020_10_20 start_day \<le> day fe" by simp
    with raw d have "''raw/'' @ strftime_Ymd (day fe) \<in> set pfxs" by blast
    moreover have "f \<in> set (list_objects mc (''raw/'' @ strftime_Ymd (day fe)))"
      using a f by (simp add: list_objects_def)
    ultimately show ?thesis by blast
  next
    assume a: "start_day < date_2020_10_21
                  \<and> startswith (Key f)
                       (''jsonl/'' @ fe_test_name fe @ ''/'' @ country_code fe @ ''/''
                          @ strftime_Ymd (day fe))"
    define q where "q = ''jsonl/'' @ fe_test_name fe @ ''/'' @ country_code fe @ ''/''"
    have sw: "startswith (Key f) (q @ strftime_Ymd (day fe))"
      using a by (simp add: q_def)
    have "q \<in> set (get_search_prefixes mc
                     (if testnames = [] then list_all_testnames mc else testnames) ccs)"
      unfolding q_def using f pf conjunct2 [OF a] cc tn by (rule search_prefix_of_layout)
    with js a d have "q \<in> set pfxs \<or> q @ strftime_Ymd (day fe) \<in> set pfxs" by blast
    then show ?thesis
    proof
      assume "q \<in> set pfxs"
      moreover have "f \<in> set (list_objects mc q)"
        using f startswith_append [OF sw] by (simp add: list_objects_def)
      ultimately show ?thesis by blast
    next
      assume "q @ strftime_Ymd (day fe) \<in> set pfxs"
      moreover have "f \<in> set (list_objects mc (q @ strftime_Ymd (day fe)))"
        using f sw by (simp add: list_objects_def)
      ultimately show ?thesis by blast
    qed
  qed
qed

lemma example_omitted_minican:
  "example_minican_obj \<in> set example_bucket
   \<and> parse_file_entry example_minican_obj = Inr example_minican_entry
   \<and> matches_filter example_minican_entry [] []
   \<and> 737723 \<le> day example_minican_entry \<and> day example_minican_entry < 737724
   \<and> jsonl_in_range id example_today example_bucket [] [] 737723 737724
       = ([example_jsonl_entry], None)
   \<and> example_minican_entry \<noteq> example_jsonl_entry"
  by code_simp

lemma example_omitted_empty:
  "parse_file_entry example_empty_obj = Inr example_empty_entry
   \<and> matches_filter example_empty_entry [] []
   \<and> 737723 \<le> day example_empty_entry \<and> day example_empty_entry < 737724
   \<and> jsonl_in_range id example_today [example_empty_obj] [] [] 737723 737724 = ([], None)"
  by code_simp

lemma example_emitted_nocc:
  "jsonl_in_range id example_today [example_nocc_obj] [''IT''] [] 737723 737724
     = ([example_nocc_entry], None)
   \<and> country_code example_nocc_entry \<notin> set [''IT'']"
  by code_simp

lemma example_unparsed:
  "parse_file_entry example_index_obj = Inl IndexError
   \<and> jsonl_in_range id example_today [example_index_obj, example_jsonl_obj] [] [] 737723 737724
       = ([], Some IndexError)"
  by code_simp

lemma example_omitted_late:
  "parse_file_entry example_late_obj = Inr example_late_entry
   \<and> matches_filter example_late_entry [] []
   \<and> 737723 \<le> day example_late_entry \<and> day example_late_entry < 737724
   \<and> get_jsonl_prefixes example_today [example_late_obj] [] [] 737723 737724
       = Inr [''raw/20201025'']
   \<and> jsonl_in_range id example_today [example_late_obj] [] [] 737723 737724 = ([], None)"
  by code_simp

lemma example_omitted_today:
  "jsonl_in_range id 737723 example_bucket [] [] 737723 737724 = ([], Some RuntimeError)
   \<and> jsonl_in_range id 737723 example_bucket [] [] 737722 737724 = ([], None)
   \<and> 737722 \<le> day example_jsonl_entry \<and> day example_jsonl_entry < 737724"
  by code_simp

text \<open>
  Claim C6, as stated, fails, in six ways.  (1) For the day 2020-10-25 and no filter the
  minican of the example bucket satisfies the predicate and is not emitted: only files
  with the extension \<open>jsonl.gz\<close> are.  (2) An empty JSONL file that satisfies the
  predicate is not emitted.  (3) With the country filter \<open>{IT}\<close>, a file whose name has
  an empty country field is emitted.  (4) An object under \<open>raw/20201025\<close> whose name does
  not parse makes the listing raise IndexError, and the JSONL file next to it is not
  emitted.  (5) A JSONL file of 2020-10-25 stored under \<open>jsonl/\<close> is not emitted: for a
  start day from 2020-10-21 on only \<open>raw/\<close> is listed.  (6) With today = 2020-10-25, a
  range that starts today raises RuntimeError and a range that starts the day before
  does not emit the file of today.
\<close>

theorem range_listing_omits_counterexample:
  "(example_minican_obj \<in> set example_bucket
    \<and> parse_file_entry example_minican_obj = Inr example_minican_entry
    \<and> matches_filter example_minican_entry [] []
    \<and> 737723 \<le> day example_minican_entry \<and> day example_minican_entry < 737724
    \<and> jsonl_in_range id example_today example_bucket [] [] 737723 737724
        = ([example_jsonl_entry], None)
    \<and> example_minican_entry \<noteq> example_jsonl_entry)
   \<and> (parse_file_entry example_empty_obj = Inr example_empty_entry
       \<and> matches_filter example_empty_entry [] []
       \<and> 737723 \<le> day example_empty_entry \<and> day example_empty_entry < 737724
       \<and> jsonl_in_range id example_today [example_empty_obj] [] [] 737723 737724 = ([], None))
   \<and> (jsonl_in_range id example_today [example_nocc_obj] [''IT''] [] 737723 737724
         = ([example_nocc_entry], None)
       \<and> country_code example_nocc_entry \<notin> set [''IT''])
   \<and> (parse_file_entry example_index_obj = Inl IndexError
       \<and> jsonl_in_range id example_today [example_index_obj, example_jsonl_obj] [] []
            737723 737724 = ([], Some IndexError))
   \<and> (parse_file_entry example_late_obj = Inr example_late_entry
       \<and> matches_filter example_late_entry [] []
       \<and> 737723 \<le> day example_late_entry \<and> day example_late_entry < 737724
       \<and> get_jsonl_prefixes example_today [example_late_obj] [] [] 737723 737724
           = Inr [''raw/20201025'']
       \<and> jsonl_in_range id example_today [example_late_obj] [] [] 737723 737724 = ([], None))
   \<and> (jsonl_in_range id 737723 example_bucket [] [] 737723 737724 = ([], Some RuntimeError)
       \<and> jsonl_in_range id 737723 example_bucket [] [] 737722 737724 = ([], None)
       \<and> 737722 \<le> day example_jsonl_entry \<and> day example_jsonl_entry < 737724)"
  by (rule conjI [OF example_omitted_minican conjI [OF example_omitted_empty
        conjI [OF example_emitted_nocc conjI [OF example_unparsed
        conjI [OF example_omitted_late example_omitted_today]]]]])

text \<open>
  Claim C6, amended.  Every entry the range listing emits has the extension
  \<open>jsonl.gz\<close> and a positive size, lies in the day range, and has its country in the
  countries unless the countries are empty or its country code is the empty string, and
  likewise its test name.  Conversely, when \<^verbatim>\<open>get_jsonl_prefixes\<close> returns, the pool
  returns the listing of each of its prefixes and every object listed under them has a
  name that parses, the iteration ends without an exception and no entry is omitted that
  has the extension \<open>jsonl.gz\<close> and a positive size, satisfies the predicate of the claim,
  is dated before today, and is stored where the listing looks: under
  \<open>raw/<YYYYMMDD of its day>\<close> for a day from 2020-10-20 on, or, when the start day is
  before 2020-10-21, under
  \<open>jsonl/<its test name>/<its country code>/<YYYYMMDD of its day>\<close>.
  \<^verbatim>\<open>get_jsonl_prefixes\<close> returns whenever the start day and 2020-10-20 are before today.
\<close>

theorem jsonl_in_range_filter:
  "(\<forall>fe \<in> set (fst (jsonl_in_range sched today mc ccs testnames start_day end_day)).
       ext fe = ''jsonl.gz'' \<and> 0 < fe_size fe
       \<and> (ccs = [] \<or> country_code fe = [] \<or> country_code fe \<in> set ccs)
       \<and> (testnames = [] \<or> fe_test_name fe = [] \<or> fe_test_name fe \<in> set testnames)
       \<and> start_day \<le> day fe \<and> day fe < end_day)
   \<and> (get_jsonl_prefixes today mc ccs testnames start_day end_day = Inr pfxs
        \<and> set (sched pfxs) = set pfxs
        \<and> (\<forall>p \<in> set pfxs. \<forall>g \<in> set (list_objects mc p). \<exists>ge. parse_file_entry g = Inr ge)
        \<and> f \<in> set mc \<and> parse_file_entry f = Inr fe
        \<and> ext fe = ''jsonl.gz'' \<and> 0 < fe_size fe
        \<and> (ccs = [] \<or> country_code fe \<in> set ccs)
        \<and> (testnames = [] \<or> fe_test_name fe \<in> set testnames)
        \<and> start_day \<le> day fe \<and> day fe < end_day \<and> day fe < today
        \<and> ((date_2020_10_20 \<le> day fe
              \<and> startswith (Key f) (''raw/'' @ strftime_Ymd (day fe)))
            \<or> (start_day < date_2020_10_21
                \<and> startswith (Key f)
                     (''jsonl/'' @ fe_test_name fe @ ''/'' @ country_code fe @ ''/''
                        @ strftime_Ymd (day fe))))
       \<longrightarrow> snd (jsonl_in_range sched today mc ccs testnames start_day end_day) = None
           \<and> fe \<in> set (fst (jsonl_in_range sched today mc ccs testnames start_day end_day)))
   \<and> (max date_2020_10_20 start_day < today \<longrightarrow>
        (\<exists>ps. get_jsonl_prefixes today mc ccs testnames start_day end_day = Inr ps))"
proof -
  have A: "(\<forall>fe \<in> set (fst (jsonl_in_range sched today mc ccs testnames start_day end_day)).
       ext fe = ''jsonl.gz'' \<and> 0 < fe_size fe
       \<and> (ccs = [] \<or> country_code fe = [] \<or> country_code fe \<in> set ccs)
       \<and> (testnames = [] \<or> fe_test_name fe = [] \<or> fe_test_name fe \<in> set testnames)
       \<and> start_day \<le> day fe \<and> day fe < end_day)"
  proof (intro ballI)
    fix fe
    assume "fe \<in> set (fst (jsonl_in_range sched today mc ccs testnames start_day end_day))"
    then have "yielded_entry ccs testnames start_day end_day fe"
      by (auto simp: jsonl_in_range_def split: sum.splits dest: yield_entries_sound)
    then show "ext fe = ''jsonl.gz'' \<and> 0 < fe_size fe
       \<and> (ccs = [] \<or> country_code fe = [] \<or> country_code fe \<in> set ccs)
       \<and> (testnames = [] \<or> fe_test_name fe = [] \<or> fe_test_name fe \<in> set testnames)
       \<and> start_day \<le> day fe \<and> day fe < end_day"
      by (simp add: yielded_entry_iff)
  qed
  have B: "get_jsonl_prefixes today mc ccs testnames start_day end_day = Inr pfxs
        \<and> set (sched pfxs) = set pfxs
        \<and> (\<forall>p \<in> set pfxs. \<forall>g \<in> set (list_objects mc p). \<exists>ge. parse_file_entry g = Inr ge)
        \<and> f \<in> set mc \<and> parse_file_entry f = Inr fe
        \<and> ext fe = ''jsonl.gz'' \<and> 0 < fe_size fe
        \<and> (ccs = [] \<or> country_code fe \<in> set ccs)
        \<and> (testnames = [] \<or> fe_test_name fe \<in> set testnames)
        \<and> start_day \<le> day fe \<and> day fe < end_day \<and> day fe < today
        \<and> ((date_2020_10_20 \<le> day fe
              \<and> startswith (Key f) (''raw/'' @ strftime_Ymd (day fe)))
            \<or> (start_day < date_2020_10_21
                \<and> startswith (Key f)
                     (''jsonl/'' @ fe_test_name fe @ ''/'' @ country_code fe @ ''/''
                        @ strftime_Ymd (day fe))))
       \<longrightarrow> snd (jsonl_in_range sched today mc ccs testnames start_day end_day) = None
           \<and> fe \<in> set (fst (jsonl_in_range sched today mc ccs testnames start_day end_day))"
  proof (rule impI)
    assume h: "get_jsonl_prefixes today mc ccs testnames start_day end_day = Inr pfxs
        \<and> set (sched pfxs) = set pfxs
        \<and> (\<forall>p \<in> set pfxs. \<forall>g \<in> set (list_objects mc p). \<exists>ge. parse_file_entry g = Inr ge)
        \<and> f \<in> set mc \<and> parse_file_entry f = Inr fe
        \<and> ext fe = ''jsonl.gz'' \<and> 0 < fe_size fe
        \<and> (ccs = [] \<or> country_code fe \<in> set ccs)
        \<and> (testnames = [] \<or> fe_test_name fe \<in> set testnames)
        \<and> start_day \<le> day fe \<and> day fe < end_day \<and> day fe < today
        \<and> ((date_2020_10_20 \<le> day fe
              \<and> startswith (Key f) (''raw/'' @ strftime_Ymd (day fe)))
            \<or> (start_day < date_2020_10_21
                \<and> startswith (Key f)
                     (''jsonl/'' @ fe_test_name fe @ ''/'' @ country_code fe @ ''/''
                        @ strftime_Ymd (day fe))))"
    then have p: "get_jsonl_prefixes today mc ccs testnames start_day end_day = Inr pfxs"
      and s: "set (sched pfxs) = set pfxs"
      and ok: "\<forall>p \<in> set pfxs. \<forall>g \<in> set (list_objects mc p). \<exists>ge. parse_file_entry g = Inr ge"
      and f: "f \<in> set mc" and pf: "parse_file_entry f = Inr fe"
      and e: "ext fe = ''jsonl.gz''" "0 < fe_size fe"
      and cc: "ccs = [] \<or> country_code fe \<in> set ccs"
      and tn: "testnames = [] \<or> fe_test_name fe \<in> set testnames"
      and d: "start_day \<le> day fe" "day fe < end_day" "day fe < today"
      and lay: "(date_2020_10_20 \<le> day fe
                 \<and> startswith (Key f) (''raw/'' @ strftime_Ymd (day fe)))
              \<or> (start_day < date_2020_10_21
                  \<and> startswith (Key f)
                       (''jsonl/'' @ fe_test_name fe @ ''/'' @ country_code fe @ ''/''
                          @ strftime_Ymd (day fe)))"
      by blast+
    have "\<exists>q \<in> set pfxs. f \<in> set (list_objects mc q)"
      using p f pf cc tn d lay by (rule listed_by_layout)
    then have l: "\<exists>q \<in> set pfxs. \<exists>g \<in> set (list_objects mc q). parse_file_entry g = Inr fe"
      using pf by blast
    have y: "yielded_entry ccs testnames start_day end_day fe"
      using e cc tn d by (auto simp: yielded_entry_iff)
    note listed = jsonl_in_range_listed [where sched = sched, OF p s ok]
    from l y have "fe \<in> set (fst (jsonl_in_range sched today mc ccs testnames start_day end_day))"
      unfolding listed(2) by blast
    with listed(1)
    show "snd (jsonl_in_range sched today mc ccs testnames start_day end_day) = None
           \<and> fe \<in> set (fst (jsonl_in_range sched today mc ccs testnames start_day end_day))"
      by (rule conjI)
  qed
  have C: "max date_2020_10_20 start_day < today \<longrightarrow>
        (\<exists>ps. get_jsonl_prefixes today mc ccs testnames start_day end_day = Inr ps)"
    using prefixes_cover [of start_day today mc ccs testnames end_day] by blast
  show ?thesis
    by (rule conjI [OF A conjI [OF B C]])
qed

lemma example_prefixes_old:
  "get_jsonl_prefixes example_today example_bucket [''IT''] [''webconnectivity''] 737717 737718
     = Inr [''jsonl/webconnectivity/IT/'']"
  by (simp add: get_jsonl_prefixes_unfold example_search_prefixes example_old_day
      example_today_def date_2020_10_20_def date_2020_10_21_def)

lemma example_listing_old:
  "list_objects example_bucket ''jsonl/webconnectivity/IT/'' = [example_old_obj]"
  by code_simp

lemma example_parse_old: "parse_file_entry example_old_obj = Inr example_old_entry"
  by code_simp

lemma example_jsonl_layout:
  "example_jsonl_obj \<in> set example_bucket
   \<and> parse_file_entry example_jsonl_obj = Inr example_jsonl_entry
   \<and> ext example_jsonl_entry = ''jsonl.gz'' \<and> 0 < fe_size example_jsonl_entry
   \<and> (([] :: string list) = [] \<or> country_code example_jsonl_entry \<in> set [])
   \<and> (([] :: string list) = [] \<or> fe_test_name example_jsonl_entry \<in> set [])
   \<and> 737723 \<le> day example_jsonl_entry \<and> day example_jsonl_entry < 737724
   \<and> day example_jsonl_entry < example_today
   \<and> ((date_2020_10_20 \<le> day example_jsonl_entry
         \<and> startswith (Key example_jsonl_obj)
              (''raw/'' @ strftime_Ymd (day example_jsonl_entry)))
       \<or> (737723 < date_2020_10_21
           \<and> startswith (Key example_jsonl_obj)
                (''jsonl/'' @ fe_test_name example_jsonl_entry @ ''/''
                   @ country_code example_jsonl_entry @ ''/''
                   @ strftime_Ymd (day example_jsonl_entry))))"
  by code_simp

lemma example_old_layout:
  "example_old_obj \<in> set example_bucket
   \<and> parse_file_entry example_old_obj = Inr example_old_entry
   \<and> ext example_old_entry = ''jsonl.gz'' \<and> 0 < fe_size example_old_entry
   \<and> ([''IT''] = [] \<or> country_code example_old_entry \<in> set [''IT''])
   \<and> ([''webconnectivity''] = [] \<or> fe_test_name example_old_entry \<in> set [''webconnectivity''])
   \<and> 737717 \<le> day example_old_entry \<and> day example_old_entry < 737718
   \<and> day example_old_entry < example_today
   \<and> ((date_2020_10_20 \<le> day example_old_entry
         \<and> startswith (Key example_old_obj)
              (''raw/'' @ strftime_Ymd (day example_old_entry)))
       \<or> (737717 < date_2020_10_21
           \<and> startswith (Key example_old_obj)
                (''jsonl/'' @ fe_test_name example_old_entry @ ''/''
                   @ country_code example_old_entry @ ''/''
                   @ strftime_Ymd (day example_old_entry))))"
  by code_simp

theorem jsonl_in_range_filter_witness:
  "snd (jsonl_in_range id example_today example_bucket [] [] 737723 737724) = None
   \<and> example_jsonl_entry
       \<in> set (fst (jsonl_in_range id example_today example_bucket [] [] 737723 737724))
   \<and> example_old_entry
       \<in> set (fst (jsonl_in_range id example_today example_bucket [''IT''] [''webconnectivity'']
                      737717 737718))
   \<and> ext example_old_entry = ''jsonl.gz'' \<and> 0 < fe_size example_old_entry
   \<and> (\<exists>ps. get_jsonl_prefixes example_today example_bucket [] [] 737723 737724 = Inr ps)"
proof -
  have parses: "\<forall>p \<in> set [''raw/20201025'']. \<forall>g \<in> set (list_objects example_bucket p).
              \<exists>ge. parse_file_entry g = Inr ge"
    by (auto simp: example_listing_new example_parse_jsonl example_parse_minican)
  have a: "snd (jsonl_in_range id example_today example_bucket [] [] 737723 737724) = None
           \<and> example_jsonl_entry
               \<in> set (fst (jsonl_in_range id example_today example_bucket [] [] 737723 737724))"
    by (rule jsonl_in_range_filter [where sched = id and today = example_today
          and mc = example_bucket and ccs = "[]" and testnames = "[]" and start_day = 737723
          and end_day = 737724 and pfxs = "[''raw/20201025'']" and f = example_jsonl_obj
          and fe = example_jsonl_entry, THEN conjunct2, THEN conjunct1, THEN mp])
       (rule conjI [OF example_prefixes_new conjI [OF _ conjI [OF parses example_jsonl_layout]]],
        simp)
  have parses_old: "\<forall>p \<in> set [''jsonl/webconnectivity/IT/''].
          \<forall>g \<in> set (list_objects example_bucket p). \<exists>ge. parse_file_entry g = Inr ge"
    by (auto simp: example_listing_old example_parse_old)
  have b: "snd (jsonl_in_range id example_today example_bucket [''IT''] [''webconnectivity'']
                  737717 737718) = None
           \<and> example_old_entry
               \<in> set (fst (jsonl_in_range id example_today example_bucket [''IT'']
                             [''webconnectivity''] 737717 737718))"
    by (rule jsonl_in_range_filter [where sched = id and today = example_today
          and mc = example_bucket and ccs = "[''IT'']" and testnames = "[''webconnectivity'']"
          and start_day = 737717 and end_day = 737718
          and pfxs = "[''jsonl/webconnectivity/IT/'']" and f = example_old_obj
          and fe = example_old_entry, THEN conjunct2, THEN conjunct1, THEN mp])
       (rule conjI [OF example_prefixes_old conjI [OF _ conjI [OF parses_old example_old_layout]]],
        simp)
  have c: "ext example_old_entry = ''jsonl.gz'' \<and> 0 < fe_size example_old_entry"
    using jsonl_in_range_filter [where sched = id and today = example_today
          and mc = example_bucket and ccs = "[''IT'']" and testnames = "[''webconnectivity'']"
          and start_day = 737717 and end_day = 737718, THEN conjunct1] b
    by blast
  have d: "\<exists>ps. get_jsonl_prefixes example_today example_bucket [] [] 737723 737724 = Inr ps"
    by (rule jsonl_in_range_filter [where today = example_today and start_day = 737723,
          THEN conjunct2, THEN conjunct2, THEN mp])
       (simp add: example_today_def date_2020_10_20_def)
  from a b c d show ?thesis by blast
qed

section \<open>Properties of the container reader\<close>

lemma rsplit1_second:
  "idx (rsplit1 c s) (Suc 0)
     = (if c \<in> set s then Inr (last (split_on c s)) else Inl IndexError)"
  by (simp add: idx_def rsplit1_def last_split_on)

lemma load_tar_gz_step:
  "envelope_ok e m \<Longrightarrow>
     load_tar_gz e (m # rest) =
       (case load_tar_gz e rest of (ys, r) \<Rightarrow> (json_envelope e m @ ys, r))"
  by (auto simp: envelope_ok_def json_envelope_def or_empty_def dict_get_def basename_def
      rsplit1_second Let_def
      split: option.splits json.splits prod.splits if_splits)

lemma load_tar_gz_ok:
  "\<forall>m \<in> set ms. envelope_ok e m \<Longrightarrow> load_tar_gz e ms = (minican_json_envelopes e ms, None)"
proof (induction ms)
  case Nil
  then show ?case by (simp add: minican_json_envelopes_def)
next
  case (Cons m ms)
  then have "load_tar_gz e ms = (minican_json_envelopes e ms, None)" by simp
  moreover have "envelope_ok e m" using Cons.prems by simp
  ultimately show ?case
    by (simp add: load_tar_gz_step minican_json_envelopes_def del: load_tar_gz.simps)
qed

lemma load_tar_gz_prefix: "prefix (fst (load_tar_gz e ms)) (minican_json_envelopes e ms)"
proof (induction ms)
  case Nil
  then show ?case by (simp add: minican_json_envelopes_def)
next
  case (Cons m ms)
  have unf: "minican_json_envelopes e (m # ms) = json_envelope e m @ minican_json_envelopes e ms"
    by (simp add: minican_json_envelopes_def)
  show ?case
  proof (cases "envelope_ok e m")
    case True
    obtain ys r where yr: "load_tar_gz e ms = (ys, r)"
      by (cases "load_tar_gz e ms")
    with Cons have "prefix ys (minican_json_envelopes e ms)" by simp
    with True yr show ?thesis
      unfolding unf by (simp add: load_tar_gz_step del: load_tar_gz.simps)
  next
    case False
    then have "fst (load_tar_gz e (m # ms)) = []"
      by (auto simp: envelope_ok_def rsplit1_second Let_def
          split: option.splits json.splits prod.splits if_splits)
    then show ?thesis by simp
  qed
qed

lemma endswith_append: "endswith s suf \<longleftrightarrow> (\<exists>p. s = p @ suf)"
proof
  assume "endswith s suf"
  then have "s = take (length s - length suf) s @ suf"
    by (metis append_take_drop_id endswith_def)
  then show "\<exists>p. s = p @ suf" ..
next
  assume "\<exists>p. s = p @ suf"
  then show "endswith s suf" by (auto simp: endswith_def)
qed

lemma tar_gz_excludes:
  assumes "endswith fn ''.tar.gz''"
  shows "\<not> endswith fn ''.tar.lz4''" "\<not> endswith fn ''.json.lz4''"
    "\<not> endswith fn ''.jsonl.gz''" "\<not> endswith fn ''.yaml.lz4''"
proof -
  from assms obtain p where p: "fn = p @ ''.tar.gz''"
    by (auto simp: endswith_append)
  have r: "rev fn = ''zg.rat.'' @ rev p" by (simp add: p)
  show "\<not> endswith fn ''.tar.lz4''"
  proof
    assume "endswith fn ''.tar.lz4''"
    then obtain q where "fn = q @ ''.tar.lz4''" by (auto simp: endswith_append)
    then have "rev fn = ''4zl.rat.'' @ rev q" by simp
    with r show False by simp
  qed
  show "\<not> endswith fn ''.json.lz4''"
  proof
    assume "endswith fn ''.json.lz4''"
    then obtain q where "fn = q @ ''.json.lz4''" by (auto simp: endswith_append)
    then have "rev fn = ''4zl.nosj.'' @ rev q" by simp
    with r show False by simp
  qed
  show "\<not> endswith fn ''.jsonl.gz''"
  proof
    assume "endswith fn ''.jsonl.gz''"
    then obtain q where "fn = q @ ''.jsonl.gz''" by (auto simp: endswith_append)
    then have "rev fn = ''zg.lnosj.'' @ rev q" by simp
    with r show False by simp
  qed
  show "\<not> endswith fn ''.yaml.lz4''"
  proof
    assume "endswith fn ''.yaml.lz4''"
    then obtain q where "fn = q @ ''.yaml.lz4''" by (auto simp: endswith_append)
    then have "rev fn = ''4zl.lmay.'' @ rev q" by simp
    with r show False by simp
  qed
qed

lemma load_multiple_tar_gz:
  "endswith fn ''.tar.gz'' \<Longrightarrow> load_multiple e fn (Some (Members ms)) = load_tar_gz e ms"
  by (simp add: load_multiple_def tar_gz_excludes open_tar_def)

lemma load_lines_uid:
  "t \<in> set (fst (load_lines e ls)) \<Longrightarrow> fst t = None \<and> snd (snd t) = trivial_id e (fst (snd t))"
  by (induction ls arbitrary: t) (auto split: option.splits prod.splits)

lemma load_yaml_uid:
  "t \<in> set (fst (load_yaml e fn k)) \<Longrightarrow> fst t = None \<and> snd (snd t) = trivial_id e (fst (snd t))"
  by (auto simp: load_yaml_def Let_def split: sum.splits)

lemma load_tar_lz4_uid:
  "t \<in> set (fst (load_tar_lz4 e fn ms)) \<Longrightarrow>
     fst t = None \<and> snd (snd t) = trivial_id e (fst (snd t))"
proof (induction ms arbitrary: t)
  case Nil
  then show ?case by simp
next
  case (Cons m ms)
  show ?case
  proof (cases "m_file m")
    case None
    with Cons.prems show ?thesis by simp
  next
    case (Some k)
    define part where "part = (if endswith (m_name m) ''.json'' then load_lines e k
                 else if endswith (m_name m) ''.yaml'' then load_yaml e fn k
                 else ([], None))"
    have p: "u \<in> set (fst part) \<Longrightarrow> fst u = None \<and> snd (snd u) = trivial_id e (fst (snd u))"
      for u
      unfolding part_def using load_lines_uid [of u e k] load_yaml_uid [of u e fn k]
      by (auto split: if_splits)
    have "t \<in> set (fst part) \<or> t \<in> set (fst (load_tar_lz4 e fn ms))"
      using Cons.prems Some unfolding part_def [symmetric]
      by (cases part; cases "snd part"; cases "load_tar_lz4 e fn ms")
         (auto simp: part_def [symmetric])
    then show ?thesis using p Cons.IH by blast
  qed
qed

lemma load_multiple_legacy_uid:
  "\<not> endswith fn ''.tar.gz'' \<Longrightarrow> t \<in> set (fst (load_multiple e fn c)) \<Longrightarrow>
     fst t = None \<and> snd (snd t) = trivial_id e (fst (snd t))"
  using load_lines_uid [of t e] load_yaml_uid [of t e fn] load_tar_lz4_uid [of t e fn]
  by (auto simp: load_multiple_def split: if_splits sum.splits)

lemma basename_post:
  assumes "endswith n ''.post''"
  shows "take (length (basename n) - 5) (basename n) @ ''.post'' = basename n"
proof -
  from assms obtain p where p: "n = p @ ''.post''"
    by (auto simp: endswith_append)
  have "takeWhile (\<lambda>x. x \<noteq> CHR ''/'') (rev n)
          = ''tsop.'' @ takeWhile (\<lambda>x. x \<noteq> CHR ''/'') (rev p)"
    by (simp add: p)
  then have "basename n = rev (takeWhile (\<lambda>x. x \<noteq> CHR ''/'') (rev p)) @ ''.post''"
    by (simp add: basename_def last_split_on)
  then show ?thesis by simp
qed

text \<open>
  On a minican all of whose members are well formed the reader ends without an
  exception and yields the \<open>.post\<close> envelopes whose format is \<open>json\<close>, in order, each
  with the base name of its member without \<open>.post\<close> as uid.  On any minican, what the
  reader yields is an initial part of that list.
\<close>

lemma minican_well_formed:
  "endswith fn ''.tar.gz'' \<Longrightarrow> \<forall>m \<in> set ms. envelope_ok e m \<Longrightarrow>
     load_multiple e fn (Some (Members ms)) = (minican_json_envelopes e ms, None)"
  by (simp add: load_multiple_tar_gz load_tar_gz_ok)

lemma minican_prefix:
  "endswith fn ''.tar.gz'' \<Longrightarrow>
     prefix (fst (load_multiple e fn (Some (Members ms)))) (minican_json_envelopes e ms)"
  by (simp add: load_multiple_tar_gz load_tar_gz_prefix)

text \<open>
  Claim C8 (the code does not do what the claim says).  The example minican holds a
  JSON envelope, a YAML envelope and a second JSON envelope, and the reader yields the
  two JSON envelopes, each with the base name of its member without \<open>.post\<close> as uid.
  Put a member whose text is cut off, so that \<^verbatim>\<open>ujson.loads\<close> raises, in front of
  them: the claim has this invalid envelope skipped and the same two envelopes yielded.
  The handler of lines 138 to 140 is written to log and \<^verbatim>\<open>continue\<close>, but its log call
  subscripts the file object (\<^verbatim>\<open>k[:100]\<close>), which raises TypeError inside the handler:
  the reader ends there and yields nothing.
\<close>

theorem minican_stops_at_malformed_envelope:
  "endswith example_minican_path ''.tar.gz''
   \<and> load_multiple example_env example_minican_path (Some (Members example_minican))
       = ([(None, JDict [(''test_name'', JStr ''signal'')],
            ''20210614004521.999962_JO_signal_68eb19b439326d60''),
           (None, JDict [(''test_name'', JStr ''signal'')],
            ''20210614004523.000002_JO_signal_0000000000000002'')], None)
   \<and> loads example_env (concat [example_bad_line]) = None
   \<and> minican_json_envelopes example_env example_broken_minican
       = [(None, JDict [(''test_name'', JStr ''signal'')],
           ''20210614004521.999962_JO_signal_68eb19b439326d60''),
          (None, JDict [(''test_name'', JStr ''signal'')],
           ''20210614004523.000002_JO_signal_0000000000000002'')]
   \<and> load_multiple example_env example_minican_path (Some (Members example_broken_minican))
       = ([], Some TypeError)"
  by code_simp

section \<open>Properties of the cache\<close>



















section \<open>Properties of the stream and of \<^verbatim>\<open>process_day\<close>\<close>







subsection \<open>The example stream\<close>

lemma example_stream_list:
  "fst (stream_measurements example_env example_store example_world
          (PyList [example_jsonl_entry]) [''cache''] True)
     = [(None, JDict [(''test_name'', JStr ''web_connectivity'')], ''00web_connectivity''),
        (None, JDict [(''test_name'', JStr ''signal'')], ''00signal'')]"
  by code_simp

lemma example_stream_generator:
  "stream_measurements example_env example_store example_world
       (PyGen [example_jsonl_entry] None) [''cache''] True = ([], None, example_world)"
  by (simp add: stream_measurements_def)

lemma example_stream_jsonl:
  "stream_jsonl example_env example_store example_world id example_today example_bucket
       [] [] [''cache''] True 737723 737724 = ([], None, example_world)"
  by (simp add: stream_jsonl_def example_range_new stream_measurements_def)

text \<open>
  Claim C2 (the code does not do what the claim says).  The range listing gives one
  entry for 2020-10-25.  \<^verbatim>\<open>stream_jsonl\<close> passes the generator to
  \<^verbatim>\<open>stream_measurements\<close>, where line 480 consumes it for the sum of the sizes; the
  loop of line 483 then finds it exhausted: nothing is downloaded (the world is
  unchanged) and nothing is yielded.  Passed as a list, the same entry is downloaded and
  its two measurements are yielded.
\<close>

theorem generator_entries_not_streamed:
  "jsonl_in_range id example_today example_bucket [] [] 737723 737724
     = ([example_jsonl_entry], None)
   \<and> stream_jsonl example_env example_store example_world id example_today example_bucket
       [] [] [''cache''] True 737723 737724 = ([], None, example_world)
   \<and> stream_measurements example_env example_store example_world
       (PyGen [example_jsonl_entry] None) [''cache''] True = ([], None, example_world)
   \<and> fst (stream_measurements example_env example_store example_world
          (PyList [example_jsonl_entry]) [''cache''] True)
     = [(None, JDict [(''test_name'', JStr ''web_connectivity'')], ''00web_connectivity''),
        (None, JDict [(''test_name'', JStr ''signal'')], ''00signal'')]"
  by (simp add: example_range_new example_stream_jsonl example_stream_generator
      example_stream_list)

subsection \<open>A record that fails\<close>













lemma example_parse_second: "parse_file_entry example_second_obj = Inr example_second_entry"
  by code_simp





end
